theory Spec2Isabelle
  imports Main
begin

section \<open>Python values and exceptions\<close>

text \<open>
  The classes of \<^verbatim>\<open>psycopg2\<close> errors the schema module distinguishes. In the
  driver every class below except \<open>InterfaceError\<close> derives from
  \<^verbatim>\<open>pg.DatabaseError\<close>.
\<close>

datatype pgclass = ProgrammingError | OperationalError | IntegrityError | DataError
  | InternalError | NotSupportedError | InterfaceError

text \<open>
  An exception raised by the driver carries its class and the SQLSTATE code the server
  reported. The other constructors are the Python exceptions that
  \<^verbatim>\<open>schema.py\<close> raises or lets through.
\<close>

datatype exc = PgError pgclass string
  | PartitionControlParameterRequired
  | KeyError | TypeError | ValueError | OverflowError | StopIteration
  | CyclicDependency

definition is_ProgrammingError :: "exc \<Rightarrow> bool" where
  "is_ProgrammingError x = (case x of PgError c code \<Rightarrow> c = ProgrammingError | _ \<Rightarrow> False)"

definition is_DatabaseError :: "exc \<Rightarrow> bool" where
  "is_DatabaseError x = (case x of PgError c code \<Rightarrow> c \<noteq> InterfaceError | _ \<Rightarrow> False)"

text \<open>
  The server's "object already exists" conditions: SQLSTATE 42P07 (duplicate table, also
  raised for an index or a view) and 42710 (duplicate object, raised for a type or a
  constraint). The driver reports both as \<^verbatim>\<open>ProgrammingError\<close>.
\<close>

definition already_exists :: "exc \<Rightarrow> bool" where
  "already_exists x =
     (case x of PgError c code \<Rightarrow> c = ProgrammingError \<and> (code = ''42P07'' \<or> code = ''42710'')
      | _ \<Rightarrow> False)"

datatype pyvalue = PyDate int | PyNone | PyInt int | PyStr string

section \<open>Dates\<close>

text \<open>
  A \<^verbatim>\<open>datetime.date\<close> is its proleptic Gregorian ordinal
  (\<^verbatim>\<open>date.toordinal()\<close>): 1 is 0001-01-01, a Monday, and
  \<^verbatim>\<open>date.max\<close> = 9999-12-31 is 3652059. Adding a \<^verbatim>\<open>timedelta\<close> raises
  \<^verbatim>\<open>OverflowError\<close> when the result leaves that range.
\<close>

type_synonym date = int

definition MAXORDINAL :: int where
  "MAXORDINAL = 3652059"

definition date_plus :: "date \<Rightarrow> int \<Rightarrow> exc + date" where
  "date_plus d days = (let ordinal = d + days in
     if 0 < ordinal \<and> ordinal \<le> MAXORDINAL then Inr ordinal else Inl OverflowError)"

definition weekday :: "date \<Rightarrow> int" where
  "weekday d = (d + 6) mod 7"

text \<open>
  \<^verbatim>\<open>date.timetuple()[:3]\<close>: year, month and day of an ordinal, computed as the
  standard library does.
\<close>

definition DAYS_IN_MONTH :: "int list" where
  "DAYS_IN_MONTH = [-1, 31, 28, 31, 30, 31, 30, 31, 31, 30, 31, 30, 31]"

definition DAYS_BEFORE_MONTH :: "int list" where
  "DAYS_BEFORE_MONTH = [-1, 0, 31, 59, 90, 120, 151, 181, 212, 243, 273, 304, 334]"

definition ord2ymd :: "date \<Rightarrow> int \<times> int \<times> int" where
  "ord2ymd ordinal =
     (let n = ordinal - 1;
          n400 = n div 146097; n = n mod 146097;
          n100 = n div 36524; n = n mod 36524;
          n4 = n div 1461; n = n mod 1461;
          n1 = n div 365; n = n mod 365;
          year = n400 * 400 + 1 + n100 * 100 + n4 * 4 + n1
      in if n1 = 4 \<or> n100 = 4 then (year - 1, 12, 31)
         else
           let leapyear = (n1 = 3 \<and> (n4 \<noteq> 24 \<or> n100 = 3));
               month = (n + 50) div 32;
               preceding = DAYS_BEFORE_MONTH ! nat month + (if 2 < month \<and> leapyear then 1 else 0)
           in if n < preceding then
                let month = month - 1;
                    preceding = preceding
                      - (DAYS_IN_MONTH ! nat month + (if month = 2 \<and> leapyear then 1 else 0))
                in (year, month, n - preceding + 1)
              else (year, month, n - preceding + 1))"

fun decimal :: "nat \<Rightarrow> string" where
  "decimal n = (if n < 10 then [char_of (48 + n)]
                else decimal (n div 10) @ [char_of (48 + n mod 10)])"

definition pad_left :: "nat \<Rightarrow> char \<Rightarrow> string \<Rightarrow> string" where
  "pad_left width c s = replicate (width - length s) c @ s"

text \<open>\<^verbatim>\<open>"%4d-%02d-%02d" % d.timetuple()[:3]\<close>\<close>

definition date_string :: "date \<Rightarrow> string" where
  "date_string d = (case ord2ymd d of (y, m, dd) \<Rightarrow>
     pad_left 4 (CHR '' '') (decimal (nat y)) @ ''-'' @ pad_left 2 (CHR ''0'') (decimal (nat m))
       @ ''-'' @ pad_left 2 (CHR ''0'') (decimal (nat dd)))"

section \<open>The window generator\<close>

text \<open>
  \<^verbatim>\<open>mondayPairsIteratorFactory\<close> checks its arguments and returns a generator
  object; the body of \<^verbatim>\<open>anIterator\<close> runs only when the generator is advanced.
  A generator is \<open>Fresh\<close> before its first \<^verbatim>\<open>next()\<close>, \<open>Suspended\<close> at the
  \<^verbatim>\<open>yield\<close> (holding \<^verbatim>\<open>nextMonday\<close> and \<^verbatim>\<open>maxDate\<close>), and
  \<open>Finished\<close> once it returned or raised.
\<close>

datatype generator = Fresh date date | Suspended date date | Finished

definition mondayPairsIteratorFactory :: "pyvalue \<Rightarrow> pyvalue \<Rightarrow> exc + generator" where
  "mondayPairsIteratorFactory minDate maxDate =
     (case (minDate, maxDate) of
        (PyDate mn, PyDate mx) \<Rightarrow> if mx < mn then Inl ValueError else Inr (Fresh mn mx)
      | _ \<Rightarrow> Inl TypeError)"

text \<open>The loop test and one turn of the \<^verbatim>\<open>while\<close> body, up to the yield.\<close>

definition loop_test :: "date \<Rightarrow> date \<Rightarrow> (exc + date \<times> date) \<times> generator" where
  "loop_test aDate maxDate =
     (if aDate \<le> maxDate then
        (case date_plus aDate 7 of
           Inl e \<Rightarrow> (Inl e, Finished)
         | Inr nextMonday \<Rightarrow> (Inr (aDate, nextMonday), Suspended nextMonday maxDate))
      else (Inl StopIteration, Finished))"

text \<open>The generator's \<^verbatim>\<open>next()\<close>: the value yielded or the exception raised, and the generator after it.\<close>

fun gen_next :: "generator \<Rightarrow> (exc + date \<times> date) \<times> generator" where
  "gen_next (Fresh minDate maxDate) =
     (case date_plus minDate (- weekday minDate) of
        Inl e \<Rightarrow> (Inl e, Finished)
      | Inr aDate \<Rightarrow> loop_test aDate maxDate)"
| "gen_next (Suspended nextMonday maxDate) = loop_test nextMonday maxDate"
| "gen_next Finished = (Inl StopIteration, Finished)"

fun gen_size :: "generator \<Rightarrow> nat" where
  "gen_size (Fresh mn mx) = nat (mx - mn + 7) + 2"
| "gen_size (Suspended a mx) = nat (mx - a + 1) + 1"
| "gen_size Finished = 0"

lemma gen_next_smaller: "gen_next g = (Inr p, g') \<Longrightarrow> gen_size g' < gen_size g"
  by (cases g)
     (auto simp: loop_test_def date_plus_def weekday_def Let_def split: if_splits sum.splits)

text \<open>
  Iterating the generator to its end, as \<^verbatim>\<open>[x for x in iterator]\<close> does: the pairs
  it yields, and the exception that ended the iteration when that is not
  \<^verbatim>\<open>StopIteration\<close>.
\<close>

function run_gen :: "generator \<Rightarrow> (date \<times> date) list \<times> exc option" where
  "run_gen g =
     (case gen_next g of
        (Inr p, g') \<Rightarrow> (case run_gen g' of (ps, r) \<Rightarrow> (p # ps, r))
      | (Inl e, g') \<Rightarrow> ([], if e = StopIteration then None else Some e))"
  by pat_completeness auto
termination
  by (relation "measure gen_size") (auto dest: gen_next_smaller [OF sym])

declare run_gen.simps [simp del]

definition list_of_iterator :: "generator \<Rightarrow> exc + (date \<times> date) list" where
  "list_of_iterator g = (case run_gen g of (ps, None) \<Rightarrow> Inr ps | (ps, Some e) \<Rightarrow> Inl e)"

section \<open>The schema catalogue\<close>

text \<open>
  The classes of \<^verbatim>\<open>schema.py\<close>: the three framework classes and the classes
  registered in \<^verbatim>\<open>databaseDependenciesForSetup\<close>.
\<close>

datatype cls = DatabaseObject | Table | PartitionedTable
  | ReportsTable | PriorityJobsTable | ProcessorsTable | JobsTable | BugsTable
  | BugAssociationsTable | ServerStatusTable | ReleaseEnum | ProductDimsTable | BranchesView
  | UrlDimsTable | OsDimsTable | ExtensionsTable | FramesTable | TimeBeforeFailureTable
  | ProductVisibilityTable | TopCrashesByUrlTable | TopCrashByUrlSignatureTable
  | TopCrashUrlFactsReportsTable | TopCrashesBySignatureTable | PluginsTable
  | PluginsReportsTable | AlexaTopsitesTable | RawAduTable | BuildsTable | DailyCrashesTable
  | EmailCampaignsTable | EmailContactsTable | EmailCampaignsContactsTable
  | SignatureProductdimsTable

text \<open>
  The \<^verbatim>\<open>name\<close> each class passes to its superclass constructor. The framework
  classes default it to \<^verbatim>\<open>None\<close>, which \<^verbatim>\<open>%s\<close> prints as the text
  \<^verbatim>\<open>None\<close>.
\<close>

fun name_of :: "cls \<Rightarrow> string" where
  "name_of DatabaseObject = ''None''"
| "name_of Table = ''None''"
| "name_of PartitionedTable = ''None''"
| "name_of ReportsTable = ''reports''"
| "name_of PriorityJobsTable = ''priorityjobs''"
| "name_of ProcessorsTable = ''processors''"
| "name_of JobsTable = ''jobs''"
| "name_of BugsTable = ''bugs''"
| "name_of BugAssociationsTable = ''bug_associations''"
| "name_of ServerStatusTable = ''server_status''"
| "name_of ReleaseEnum = ''release_enum''"
| "name_of ProductDimsTable = ''productdims''"
| "name_of BranchesView = ''branches''"
| "name_of UrlDimsTable = ''urldims''"
| "name_of OsDimsTable = ''osdims''"
| "name_of ExtensionsTable = ''extensions''"
| "name_of FramesTable = ''frames''"
| "name_of TimeBeforeFailureTable = ''time_before_failure''"
| "name_of ProductVisibilityTable = ''product_visibility''"
| "name_of TopCrashesByUrlTable = ''top_crashes_by_url''"
| "name_of TopCrashByUrlSignatureTable = ''top_crashes_by_url_signature''"
| "name_of TopCrashUrlFactsReportsTable = ''topcrashurlfactsreports''"
| "name_of TopCrashesBySignatureTable = ''top_crashes_by_signature''"
| "name_of PluginsTable = ''plugins''"
| "name_of PluginsReportsTable = ''plugins_reports''"
| "name_of AlexaTopsitesTable = ''alexa_topsites''"
| "name_of RawAduTable = ''raw_adu''"
| "name_of BuildsTable = ''builds''"
| "name_of DailyCrashesTable = ''daily_crashes''"
| "name_of EmailCampaignsTable = ''email_campaigns''"
| "name_of EmailContactsTable = ''email_contacts''"
| "name_of EmailCampaignsContactsTable = ''email_campaigns_contacts''"
| "name_of SignatureProductdimsTable = ''signature_productdims''"

text \<open>
  The statements a cursor executes. The short statements are their text. The long
  catalogue texts are named by the class that carries them: \<open>CreationSql c\<close> is the
  \<^verbatim>\<open>creationSql\<close> literal of class \<open>c\<close>, \<open>PartitionCreationSql c d\<close> is
  \<^verbatim>\<open>partitionCreationSqlTemplate % d\<close> of class \<open>c\<close>, and \<open>InsertSql c n row\<close> is
  \<^verbatim>\<open>insertSql.replace('TABLENAME', n)\<close> of class \<open>c\<close> executed with the
  parameters \<open>row\<close>.
\<close>

type_synonym dict = "(string \<times> string) list"

datatype statement = Sql string
  | CreationSql cls
  | PartitionCreationSql cls dict
  | InsertSql cls string "string list"

record dbobject =
  objClass :: cls
  name :: string
  creationSql :: statement

text \<open>\<^verbatim>\<open>dbObjectClass(logger = self.logger)\<close>\<close>

definition new :: "cls \<Rightarrow> dbobject" where
  "new c = \<lparr>objClass = c, name = name_of c, creationSql = CreationSql c\<rparr>"

text \<open>The module-level dictionaries, in the order the source fills them.\<close>

definition databaseDependenciesForSetup :: "(cls \<times> cls list) list" where
  "databaseDependenciesForSetup =
    [(ReportsTable, []),
     (PriorityJobsTable, []),
     (ProcessorsTable, []),
     (JobsTable, [ProcessorsTable]),
     (BugsTable, []),
     (BugAssociationsTable, [BugsTable]),
     (ServerStatusTable, []),
     (ReleaseEnum, []),
     (ProductDimsTable, [ReleaseEnum]),
     (BranchesView, [ProductDimsTable]),
     (UrlDimsTable, []),
     (OsDimsTable, []),
     (ExtensionsTable, []),
     (FramesTable, []),
     (TimeBeforeFailureTable, [ProductDimsTable, OsDimsTable]),
     (ProductVisibilityTable, [ProductDimsTable]),
     (TopCrashesByUrlTable, [ProductDimsTable, OsDimsTable, UrlDimsTable]),
     (TopCrashByUrlSignatureTable, [TopCrashesByUrlTable]),
     (TopCrashUrlFactsReportsTable, [TopCrashesByUrlTable]),
     (TopCrashesBySignatureTable, [OsDimsTable, ProductDimsTable]),
     (PluginsTable, []),
     (PluginsReportsTable, [PluginsTable]),
     (AlexaTopsitesTable, []),
     (RawAduTable, []),
     (BuildsTable, []),
     (DailyCrashesTable, []),
     (EmailCampaignsTable, []),
     (EmailContactsTable, []),
     (EmailCampaignsContactsTable, [EmailCampaignsTable, EmailContactsTable]),
     (SignatureProductdimsTable, [TopCrashesBySignatureTable, ProductDimsTable])]"

definition databaseDependenciesForPartition :: "(cls \<times> cls list) list" where
  "databaseDependenciesForPartition =
    [(ExtensionsTable, [ReportsTable]),
     (FramesTable, [ReportsTable]),
     (PluginsReportsTable, [ReportsTable])]"

text \<open>
  Modelled from the spec: \<^verbatim>\<open>socorro.lib.prioritize.dependencyOrder\<close>, which
  \<^verbatim>\<open>getOrderedSetupList\<close> and \<^verbatim>\<open>getOrderedPartitionList\<close> call, is not
  among the sources. The specification describes it as a deterministic ordering that
  contains every identifier transitively required by the requested ones and the requested
  ones themselves, each after all the identifiers it depends on, that takes an empty
  request to mean all known identifiers, and that fails on a cyclic mapping. It is
  modelled as a depth-first visit that emits an identifier after its dependencies; the
  depth bound is the number of keys plus one, which only a cycle can exceed.
\<close>

definition dependencies :: "(cls \<times> cls list) list \<Rightarrow> cls \<Rightarrow> cls list" where
  "dependencies aMap c = (case map_of aMap c of None \<Rightarrow> [] | Some ds \<Rightarrow> ds)"

fun visit :: "nat \<Rightarrow> (cls \<times> cls list) list \<Rightarrow> cls \<Rightarrow> cls list \<Rightarrow> cls list option"
  and visit_all :: "nat \<Rightarrow> (cls \<times> cls list) list \<Rightarrow> cls list \<Rightarrow> cls list \<Rightarrow> cls list option"
where
  "visit 0 aMap c done = None"
| "visit (Suc depth) aMap c done =
     (if c \<in> set done then Some done
      else (case visit_all depth aMap (dependencies aMap c) done of
              None \<Rightarrow> None
            | Some done' \<Rightarrow> Some (done' @ [c])))"
| "visit_all depth aMap [] done = Some done"
| "visit_all depth aMap (c # cs) done =
     (case visit depth aMap c done of
        None \<Rightarrow> None
      | Some done' \<Rightarrow> visit_all depth aMap cs done')"

definition dependencyOrder :: "(cls \<times> cls list) list \<Rightarrow> cls list option \<Rightarrow> exc + cls list" where
  "dependencyOrder aMap aList =
     (let wanted = (case aList of None \<Rightarrow> map fst aMap
                    | Some l \<Rightarrow> if l = [] then map fst aMap else l)
      in case visit_all (Suc (length aMap)) aMap wanted [] of
           None \<Rightarrow> Inl CyclicDependency
         | Some order \<Rightarrow> Inr order)"

definition getOrderedSetupList :: "cls list option \<Rightarrow> exc + cls list" where
  "getOrderedSetupList whichTables = dependencyOrder databaseDependenciesForSetup whichTables"

definition getOrderedPartitionList :: "cls list \<Rightarrow> exc + cls list" where
  "getOrderedPartitionList whichTables =
     (if whichTables = [] then Inr []
      else dependencyOrder databaseDependenciesForPartition (Some whichTables))"

section \<open>Cursors, the database and the program state\<close>

text \<open>
  A cursor and its connection are one identifier. What a cursor is asked to do is an
  \<open>action\<close>; the \<open>trace\<close> records every action with the exception it raised, if any,
  and every log record. The database is any function that decides, from the trace so
  far, whether the next action raises: nothing is assumed about the server.

  \<open>LockAcquire\<close> and \<open>LockRelease\<close> are the events of
  \<^verbatim>\<open>PartitionedTable.partitionCreationLock.acquire()\<close> and
  \<^verbatim>\<open>.release()\<close>. The module declares the lock (a \<^verbatim>\<open>threading.RLock\<close>) and
  calls neither method anywhere, so no function below records them.
\<close>

type_synonym cursor = nat

datatype action = Execute statement | Commit | Rollback | Connect

datatype event = Db cursor action "exc option" | Debug string | Report exc
  | LockAcquire | LockRelease

text \<open>How many times the re-entrant lock is held after a trace.\<close>

fun hold_step :: "event \<Rightarrow> nat \<Rightarrow> nat" where
  "hold_step LockAcquire n = Suc n"
| "hold_step LockRelease n = n - 1"
| "hold_step e n = n"

definition hold_count :: "event list \<Rightarrow> nat" where
  "hold_count es = fold hold_step es 0"

type_synonym database = "event list \<Rightarrow> cursor \<Rightarrow> action \<Rightarrow> exc option"

text \<open>
  The state the module's functions change: the trace, and the module-level set
  \<^verbatim>\<open>partitionCreationHistory\<close>.
\<close>

record state =
  trace :: "event list"
  partitionCreationHistory :: "string set"

text \<open>A statement sequence either returns a value or raises, and leaves a state.\<close>

type_synonym 'a prog = "state \<Rightarrow> (exc + 'a) \<times> state"

definition return :: "'a \<Rightarrow> 'a prog" where
  "return x s = (Inr x, s)"

definition raise :: "exc \<Rightarrow> 'a prog" where
  "raise x s = (Inl x, s)"

definition and_then :: "'a prog \<Rightarrow> ('a \<Rightarrow> 'b prog) \<Rightarrow> 'b prog" where
  "and_then m f s = (case m s of (Inl x, s') \<Rightarrow> (Inl x, s') | (Inr v, s') \<Rightarrow> f v s')"

text \<open>\<^verbatim>\<open>try: m  except C, x: h\<close>, where \<open>catches\<close> decides membership in \<open>C\<close>.\<close>

definition try_except :: "'a prog \<Rightarrow> (exc \<Rightarrow> bool) \<Rightarrow> (exc \<Rightarrow> 'a prog) \<Rightarrow> 'a prog" where
  "try_except m catches h s =
     (case m s of
        (Inl x, s') \<Rightarrow> if catches x then h x s' else (Inl x, s')
      | (Inr v, s') \<Rightarrow> (Inr v, s'))"

fun for_each :: "'a list \<Rightarrow> ('a \<Rightarrow> unit prog) \<Rightarrow> unit prog" where
  "for_each [] body = return ()"
| "for_each (x # xs) body = and_then (body x) (\<lambda>_. for_each xs body)"

definition lift :: "exc + 'a \<Rightarrow> 'a prog" where
  "lift r = (case r of Inl x \<Rightarrow> raise x | Inr v \<Rightarrow> return v)"

definition perform :: "database \<Rightarrow> cursor \<Rightarrow> action \<Rightarrow> unit prog" where
  "perform db cur a s =
     (let outcome = db (trace s) cur a;
          s' = s\<lparr>trace := trace s @ [Db cur a outcome]\<rparr>
      in case outcome of None \<Rightarrow> (Inr (), s') | Some x \<Rightarrow> (Inl x, s'))"

definition execute :: "database \<Rightarrow> cursor \<Rightarrow> statement \<Rightarrow> unit prog" where
  "execute db cur stmt = perform db cur (Execute stmt)"

text \<open>\<^verbatim>\<open>self.logger.debug(...)\<close>; the thread name and the exception text are left out of the message.\<close>

definition debug :: "string \<Rightarrow> unit prog" where
  "debug msg s = (Inr (), s\<lparr>trace := trace s @ [Debug msg]\<rparr>)"

section \<open>The partition registry\<close>

definition partitionWasCreated :: "string \<Rightarrow> bool prog" where
  "partitionWasCreated partitionTableName s =
     (Inr (partitionTableName \<in> partitionCreationHistory s), s)"

definition markPartitionCreated :: "string \<Rightarrow> unit prog" where
  "markPartitionCreated partitionTableName s =
     (Inr (), s\<lparr>partitionCreationHistory := insert partitionTableName (partitionCreationHistory s)\<rparr>)"

section \<open>DatabaseObject and Table\<close>

text \<open>
  \<^verbatim>\<open>additionalCreationProcedures\<close> is \<^verbatim>\<open>pass\<close> in \<^verbatim>\<open>DatabaseObject\<close>
  and in the one class that overrides it (\<^verbatim>\<open>ReportsTable\<close>).
\<close>

definition additionalCreationProcedures :: "database \<Rightarrow> dbobject \<Rightarrow> cursor \<Rightarrow> unit prog" where
  "additionalCreationProcedures db self databaseCursor = return ()"

text \<open>\<^verbatim>\<open>DatabaseObject._createSelf\<close>\<close>

definition createSelf :: "database \<Rightarrow> dbobject \<Rightarrow> cursor \<Rightarrow> unit prog" where
  "createSelf db self databaseCursor =
     and_then (execute db databaseCursor (creationSql self)) (\<lambda>_.
     additionalCreationProcedures db self databaseCursor)"

text \<open>The body of the \<^verbatim>\<open>for\<close> loop of \<^verbatim>\<open>DatabaseObject.create\<close>.\<close>

definition create_step :: "database \<Rightarrow> dbobject \<Rightarrow> cursor \<Rightarrow> cls \<Rightarrow> unit prog" where
  "create_step db self databaseCursor dbObjectClass =
     (let dbObjectObject = (if objClass self \<noteq> dbObjectClass then new dbObjectClass else self) in
      and_then (execute db databaseCursor (Sql (''savepoint creating_'' @ name dbObjectObject))) (\<lambda>_.
      try_except
        (and_then (createSelf db dbObjectObject databaseCursor) (\<lambda>_.
         execute db databaseCursor (Sql (''release savepoint creating_'' @ name dbObjectObject))))
        is_ProgrammingError
        (\<lambda>x.
         and_then (execute db databaseCursor (Sql (''rollback to creating_'' @ name dbObjectObject))) (\<lambda>_.
         and_then (perform db databaseCursor Commit) (\<lambda>_.
         debug (''in create for '' @ name self @ '', dbObject '' @ name dbObjectObject @ '' exists''))))))"

definition create :: "database \<Rightarrow> dbobject \<Rightarrow> cursor \<Rightarrow> unit prog" where
  "create db self databaseCursor =
     and_then (lift (getOrderedSetupList (Some [objClass self]))) (\<lambda>orderedDbObjectList.
     for_each orderedDbObjectList (create_step db self databaseCursor))"



section \<open>PartitionedTable\<close>

text \<open>
  \<^verbatim>\<open>partitionCreationParameters\<close>: \<^verbatim>\<open>PartitionedTable\<close> returns the empty
  dictionary; the four partitioned tables override it with the same body, which differs
  only in the prefix of the partition name.
\<close>

fun partition_prefix :: "cls \<Rightarrow> string option" where
  "partition_prefix ReportsTable = Some ''reports_''"
| "partition_prefix ExtensionsTable = Some ''extensions_''"
| "partition_prefix FramesTable = Some ''frames_''"
| "partition_prefix PluginsReportsTable = Some ''plugins_reports_''"
| "partition_prefix c = None"

definition partitionCreationParameters :: "cls \<Rightarrow> date \<times> date \<Rightarrow> dict" where
  "partitionCreationParameters c uniqueIdentifier =
     (case partition_prefix c of
        None \<Rightarrow> []
      | Some prefix \<Rightarrow>
          (case uniqueIdentifier of (startDate, endDate) \<Rightarrow>
             let startDateAsString = date_string startDate;
                 compressedStartDateAsString = filter (\<lambda>ch. ch \<noteq> CHR ''-'') startDateAsString;
                 endDateAsString = date_string endDate
             in [(''partitionName'', prefix @ compressedStartDateAsString),
                 (''startDate'', startDateAsString),
                 (''endDate'', endDateAsString),
                 (''compressedStartDate'', compressedStartDateAsString)]))"

text \<open>Subscripting a dictionary raises \<^verbatim>\<open>KeyError\<close> on a missing key.\<close>

definition subscript :: "('k \<times> 'v) list \<Rightarrow> 'k \<Rightarrow> exc + 'v" where
  "subscript d k = (case map_of d k of None \<Rightarrow> Inl KeyError | Some v \<Rightarrow> Inr v)"

text \<open>
  The body of the \<^verbatim>\<open>for\<close> loop of \<^verbatim>\<open>PartitionedTable._createOwnPartition\<close>.
  No class of the source changes \<^verbatim>\<open>partitionNameTemplate\<close> from its default
  \<^verbatim>\<open>'%s'\<close>, so the template applied to the name is the name.
\<close>

definition createOwnPartition_step :: "database \<Rightarrow> dbobject \<Rightarrow> cursor \<Rightarrow> date \<times> date \<Rightarrow> unit prog" where
  "createOwnPartition_step db self databaseCursor x =
     (let partitionCreationParameters = partitionCreationParameters (objClass self) x in
      and_then (lift (subscript partitionCreationParameters ''partitionName'')) (\<lambda>partitionName.
      and_then (partitionWasCreated partitionName) (\<lambda>known.
      if known then return ()
      else
        let partitionCreationSql = PartitionCreationSql (objClass self) partitionCreationParameters;
            aPartition = \<lparr>objClass = Table, name = partitionName, creationSql = partitionCreationSql\<rparr>
        in
        and_then (debug (''savepoint createPartitions_'' @ partitionName)) (\<lambda>_.
        and_then (execute db databaseCursor (Sql (''savepoint createPartitions_'' @ partitionName))) (\<lambda>_.
        and_then
          (try_except
            (and_then (debug (''creating '' @ partitionName)) (\<lambda>_.
             and_then (createSelf db aPartition databaseCursor) (\<lambda>_.
             and_then (markPartitionCreated partitionName) (\<lambda>_.
             and_then (debug ''successful - releasing savepoint'') (\<lambda>_.
             execute db databaseCursor (Sql (''release savepoint createPartitions_'' @ partitionName)))))))
            is_ProgrammingError
            (\<lambda>x.
             and_then (debug (''Rolling back and releasing savepoint: Creating '' @ partitionName
                              @ '' failed in createPartitions'')) (\<lambda>_.
             execute db databaseCursor
               (Sql (''rollback to createPartitions_'' @ partitionName
                     @ ''; release savepoint createPartitions_'' @ partitionName @ '';'')))))
          (\<lambda>_.
        perform db databaseCursor Commit))))))"

text \<open>\<^verbatim>\<open>PartitionedTable._createOwnPartition\<close>\<close>

definition createOwnPartition :: "database \<Rightarrow> dbobject \<Rightarrow> cursor \<Rightarrow> (date \<times> date) list \<Rightarrow> unit prog" where
  "createOwnPartition db self databaseCursor uniqueItems =
     and_then (debug (''in createOwnPartition for '' @ name self)) (\<lambda>_.
     for_each uniqueItems (createOwnPartition_step db self databaseCursor))"

definition createPartitions :: "database \<Rightarrow> dbobject \<Rightarrow> cursor \<Rightarrow> generator \<Rightarrow> unit prog" where
  "createPartitions db self databaseCursor iterator =
     and_then (debug ''in createPartitions'') (\<lambda>_.
     and_then (lift (getOrderedPartitionList [objClass self])) (\<lambda>partitionTableClasses.
     and_then (lift (list_of_iterator iterator)) (\<lambda>uniqueItems.
     for_each partitionTableClasses (\<lambda>tableClass.
       let tableObject = (if objClass self \<noteq> tableClass then new tableClass else self)
       in createOwnPartition db tableObject databaseCursor uniqueItems))))"

text \<open>
  \<^verbatim>\<open>PartitionedTable.insert\<close>. The keyword arguments are a dictionary of Python
  values; \<open>alternateCursorFunction\<close> is what the caller's function does when called:
  it raises, or returns a cursor on another connection.
\<close>

definition insert_row :: "database \<Rightarrow> dbobject \<Rightarrow> cursor \<Rightarrow> string list \<Rightarrow> (exc + cursor)
    \<Rightarrow> (string \<times> pyvalue) list \<Rightarrow> unit prog" where
  "insert_row db self databaseCursor row alternateCursorFunction kwargs =
     (case map_of kwargs ''date_processed'' of
        None \<Rightarrow> raise PartitionControlParameterRequired
      | Some uniqueIdentifier \<Rightarrow>
          and_then (lift (mondayPairsIteratorFactory uniqueIdentifier uniqueIdentifier)) (\<lambda>g.
          and_then (lift (fst (gen_next g))) (\<lambda>dateRangeTuple.
          and_then (lift (subscript (partitionCreationParameters (objClass self) dateRangeTuple)
                             ''partitionName'')) (\<lambda>partitionName.
          let insertSql = InsertSql (objClass self) partitionName row in
          try_except
            (and_then (execute db databaseCursor (Sql (''savepoint '' @ partitionName))) (\<lambda>_.
             and_then (execute db databaseCursor insertSql) (\<lambda>_.
             execute db databaseCursor (Sql (''release savepoint '' @ partitionName)))))
            is_ProgrammingError
            (\<lambda>x.
             and_then (debug ''Rolling back and releasing savepoint: failed'') (\<lambda>_.
             and_then (execute db databaseCursor
                         (Sql (''rollback to '' @ partitionName
                               @ ''; release savepoint '' @ partitionName @ '';''))) (\<lambda>_.
             and_then (perform db databaseCursor Commit) (\<lambda>_.
             and_then (lift alternateCursorFunction) (\<lambda>altCursor.
             and_then (lift (mondayPairsIteratorFactory uniqueIdentifier uniqueIdentifier)) (\<lambda>dateIterator.
             and_then
               (try_except (createPartitions db self altCursor dateIterator)
                  is_DatabaseError
                  (\<lambda>x. debug (''Failed to create partition(s) '' @ partitionName)))
               (\<lambda>_.
             and_then (debug (''trying to insert into '' @ name self @ '' for the second time'')) (\<lambda>_.
             execute db databaseCursor insertSql))))))))))))"

section \<open>Teardown\<close>





section \<open>Observations on runs\<close>

text \<open>
  What a run added to the trace: the events of \<open>s'\<close> after those of \<open>s\<close>.
\<close>

definition emitted :: "state \<Rightarrow> state \<Rightarrow> event list" where
  "emitted s s' = drop (length (trace s)) (trace s')"

text \<open>
  Assertions about statement sequences: from a state that satisfies \<open>P\<close>, the
  sequence either returns \<open>v\<close> in a state that satisfies \<open>Q v\<close> or raises \<open>x\<close> in a
  state that satisfies \<open>E x\<close>. \<open>preserves I E m\<close> is the case of an invariant \<open>I\<close>.
\<close>

definition hoare :: "(state \<Rightarrow> bool) \<Rightarrow> 'a prog \<Rightarrow> ('a \<Rightarrow> state \<Rightarrow> bool) \<Rightarrow> (exc \<Rightarrow> state \<Rightarrow> bool) \<Rightarrow> bool" where
  "hoare P m Q E = (\<forall>s. P s \<longrightarrow> (case m s of (Inr v, s') \<Rightarrow> Q v s' | (Inl x, s') \<Rightarrow> E x s'))"

definition preserves :: "(state \<Rightarrow> bool) \<Rightarrow> (exc \<Rightarrow> state \<Rightarrow> bool) \<Rightarrow> 'a prog \<Rightarrow> bool" where
  "preserves I E m = hoare I m (\<lambda>_. I) E"

text \<open>
  Since the state \<open>s0\<close>, every failure of a cursor action was a
  \<^verbatim>\<open>ProgrammingError\<close>; respectively, was a \<^verbatim>\<open>ProgrammingError\<close> or is the
  exception \<open>x\<close> now being raised.
\<close>

definition only_programming_errors :: "state \<Rightarrow> state \<Rightarrow> bool" where
  "only_programming_errors s0 s =
     (\<exists>es. trace s = trace s0 @ es
        \<and> (\<forall>c a y. Db c a (Some y) \<in> set es \<longrightarrow> is_ProgrammingError y))"

definition raised_is_the_fatal :: "state \<Rightarrow> exc \<Rightarrow> state \<Rightarrow> bool" where
  "raised_is_the_fatal s0 x s =
     (\<exists>es. trace s = trace s0 @ es
        \<and> (\<forall>c a y. Db c a (Some y) \<in> set es \<longrightarrow> is_ProgrammingError y \<or> y = x))"

text \<open>
  Since the state \<open>s0\<close>, the partition name \<open>n\<close> is in the registry exactly when the
  event \<open>created\<close> is in the trace; respectively, the event is in the trace.
\<close>

definition marked_iff_created :: "state \<Rightarrow> string \<Rightarrow> event \<Rightarrow> state \<Rightarrow> bool" where
  "marked_iff_created s0 n created s =
     (\<exists>es. trace s = trace s0 @ es \<and> (n \<in> partitionCreationHistory s \<longleftrightarrow> created \<in> set es))"

definition created_unmarked :: "state \<Rightarrow> event \<Rightarrow> state \<Rightarrow> bool" where
  "created_unmarked s0 created s = (\<exists>es. trace s = trace s0 @ es \<and> created \<in> set es)"

text \<open>
  A database on which nothing fails except that an object's creation statement may raise a
  \<^verbatim>\<open>ProgrammingError\<close>.
\<close>

definition collisions_only :: "database \<Rightarrow> bool" where
  "collisions_only db =
     (\<forall>h c a. case db h c a of
                 None \<Rightarrow> True
               | Some x \<Rightarrow> is_ProgrammingError x \<and> (\<exists>k. a = Execute (CreationSql k)))"

text \<open>
  The events of one turn of the loop of \<^verbatim>\<open>DatabaseObject.create\<close> for class \<open>c\<close>
  on such a database: savepoint, creation, release when the creation succeeds; savepoint,
  failed creation, rollback to the savepoint, commit and a debug record when it raises.
\<close>

definition step_events :: "cursor \<Rightarrow> dbobject \<Rightarrow> cls \<Rightarrow> exc option \<Rightarrow> event list" where
  "step_events cur self c outcome =
     (let obj = (if objClass self \<noteq> c then new c else self) in
      case outcome of
        None \<Rightarrow>
          [Db cur (Execute (Sql (''savepoint creating_'' @ name obj))) None,
           Db cur (Execute (creationSql obj)) None,
           Db cur (Execute (Sql (''release savepoint creating_'' @ name obj))) None]
      | Some x \<Rightarrow>
          [Db cur (Execute (Sql (''savepoint creating_'' @ name obj))) None,
           Db cur (Execute (creationSql obj)) (Some x),
           Db cur (Execute (Sql (''rollback to creating_'' @ name obj))) None,
           Db cur Commit None,
           Debug (''in create for '' @ name self @ '', dbObject '' @ name obj @ '' exists'')])"

text \<open>
  The same events for a new instance of class \<open>X\<close>, written with the name and the
  creation statement of the class \<open>c\<close> of the turn: the turn of \<open>c\<close> executes the
  creation statement of \<open>c\<close> under the savepoint named after \<open>c\<close>.
\<close>

definition class_step_events :: "cursor \<Rightarrow> cls \<Rightarrow> cls \<Rightarrow> exc option \<Rightarrow> event list" where
  "class_step_events cur X c outcome =
     (case outcome of
        None \<Rightarrow>
          [Db cur (Execute (Sql (''savepoint creating_'' @ name_of c))) None,
           Db cur (Execute (CreationSql c)) None,
           Db cur (Execute (Sql (''release savepoint creating_'' @ name_of c))) None]
      | Some x \<Rightarrow>
          [Db cur (Execute (Sql (''savepoint creating_'' @ name_of c))) None,
           Db cur (Execute (CreationSql c)) (Some x),
           Db cur (Execute (Sql (''rollback to creating_'' @ name_of c))) None,
           Db cur Commit None,
           Debug (''in create for '' @ name_of X @ '', dbObject '' @ name_of c @ '' exists'')])"

text \<open>
  The events of one turn of the loop of \<^verbatim>\<open>PartitionedTable._createOwnPartition\<close>
  for the window \<open>x\<close> of class \<open>c\<close>, whose partition is not in the registry, when the
  statements other than the creation succeed: the creation succeeds and the savepoint is
  released, or the creation raises \<open>y\<close> and one statement rolls back to the savepoint and
  releases it; the connection is committed in both cases.
\<close>

definition partition_events :: "cursor \<Rightarrow> cls \<Rightarrow> date \<times> date \<Rightarrow> string \<Rightarrow> exc option \<Rightarrow> event list" where
  "partition_events cur c x partitionName outcome =
     (case outcome of
        None \<Rightarrow>
          [Debug (''savepoint createPartitions_'' @ partitionName),
           Db cur (Execute (Sql (''savepoint createPartitions_'' @ partitionName))) None,
           Debug (''creating '' @ partitionName),
           Db cur (Execute (PartitionCreationSql c (partitionCreationParameters c x))) None,
           Debug ''successful - releasing savepoint'',
           Db cur (Execute (Sql (''release savepoint createPartitions_'' @ partitionName))) None,
           Db cur Commit None]
      | Some y \<Rightarrow>
          [Debug (''savepoint createPartitions_'' @ partitionName),
           Db cur (Execute (Sql (''savepoint createPartitions_'' @ partitionName))) None,
           Debug (''creating '' @ partitionName),
           Db cur (Execute (PartitionCreationSql c (partitionCreationParameters c x))) (Some y),
           Debug (''Rolling back and releasing savepoint: Creating '' @ partitionName
                    @ '' failed in createPartitions''),
           Db cur (Execute (Sql (''rollback to createPartitions_'' @ partitionName
                     @ ''; release savepoint createPartitions_'' @ partitionName @ '';''))) None,
           Db cur Commit None])"

text \<open>
  \<open>before xs d c\<close>: \<open>d\<close> occurs in \<open>xs\<close> before the first occurrence of \<open>c\<close>.
  \<open>closure_in_order X\<close>: the setup list of \<open>X\<close> exists, contains \<open>X\<close>, and contains
  the registered dependencies of each of its members, each before that member.
\<close>

definition before :: "'a list \<Rightarrow> 'a \<Rightarrow> 'a \<Rightarrow> bool" where
  "before xs d c = (d \<in> set (takeWhile (\<lambda>e. e \<noteq> c) xs))"

definition closure_in_order :: "cls \<Rightarrow> bool" where
  "closure_in_order X =
     (case getOrderedSetupList (Some [X]) of
        Inl x \<Rightarrow> False
      | Inr order \<Rightarrow>
          X \<in> set order \<and> distinct order
          \<and> (\<forall>c \<in> set order. \<forall>d \<in> set (dependencies databaseDependenciesForSetup c).
                d \<in> set order \<and> before order d c))"








text \<open>
  Since the state \<open>s0\<close>, the lock was neither acquired nor released.
\<close>

definition lock_untouched :: "state \<Rightarrow> state \<Rightarrow> bool" where
  "lock_untouched s0 s =
     (\<exists>es. trace s = trace s0 @ es \<and> LockAcquire \<notin> set es \<and> LockRelease \<notin> set es)"

text \<open>
  \<open>n\<close> consecutive 7-day windows from the date \<open>a\<close>.
\<close>

definition weeks :: "date \<Rightarrow> nat \<Rightarrow> (date \<times> date) list" where
  "weeks a n = map (\<lambda>k. (a + 7 * int k, a + 7 * int k + 7)) [0..<n]"

section \<open>Example databases and states\<close>

text \<open>
  A state with an empty trace and an empty registry, and one whose registry already holds a
  partition.
\<close>

definition empty_state :: state where
  "empty_state = \<lparr>trace = [], partitionCreationHistory = {}\<rparr>"


text \<open>
  Databases for the concrete runs below. \<open>db_ok\<close> never fails. On \<open>db_collision\<close> every
  creation statement raises "relation already exists" (SQLSTATE 42P07); on
  \<open>db_tables_exist\<close> only the creation statements of whole objects do. On
  \<open>db_syntax_error\<close> every creation statement raises a syntax error (42601), on
  \<open>db_shutdown\<close> an \<^verbatim>\<open>OperationalError\<close> (57P01). On \<open>db_duplicate_row\<close> every insert
  violates a unique constraint (23505, an \<^verbatim>\<open>IntegrityError\<close>). On
  \<open>db_missing_partition\<close> an insert raises "relation does not exist" (42P01) until the
  partition of its table for the week of 2024-06-03 has been created on cursor 1. On
  \<open>db_alternate_closed\<close> every insert raises "relation does not exist" and every
  statement on cursor 1 raises an \<^verbatim>\<open>InterfaceError\<close>, as on a closed connection. On
  \<open>db_locked\<close> dropping the table \<^verbatim>\<open>priorityjobs\<close> raises an
  \<^verbatim>\<open>OperationalError\<close> (55P03).
\<close>

definition db_ok :: database where
  "db_ok h c a = None"

definition db_collision :: database where
  "db_collision h c a =
     (case a of
        Execute (CreationSql k) \<Rightarrow> Some (PgError ProgrammingError ''42P07'')
      | Execute (PartitionCreationSql k d) \<Rightarrow> Some (PgError ProgrammingError ''42P07'')
      | _ \<Rightarrow> None)"

definition db_tables_exist :: database where
  "db_tables_exist h c a =
     (case a of
        Execute (CreationSql k) \<Rightarrow> Some (PgError ProgrammingError ''42P07'')
      | _ \<Rightarrow> None)"

definition db_syntax_error :: database where
  "db_syntax_error h c a =
     (case a of
        Execute (CreationSql k) \<Rightarrow> Some (PgError ProgrammingError ''42601'')
      | Execute (PartitionCreationSql k d) \<Rightarrow> Some (PgError ProgrammingError ''42601'')
      | _ \<Rightarrow> None)"

definition db_shutdown :: database where
  "db_shutdown h c a =
     (case a of
        Execute (CreationSql k) \<Rightarrow> Some (PgError OperationalError ''57P01'')
      | Execute (PartitionCreationSql k d) \<Rightarrow> Some (PgError OperationalError ''57P01'')
      | _ \<Rightarrow> None)"






section \<open>Properties of the window generator\<close>

lemma run_gen_stop: "mx < a \<Longrightarrow> run_gen (Suspended a mx) = ([], None)"
  by (subst run_gen.simps) (simp add: loop_test_def)

lemma run_gen_step:
  "a \<le> mx \<Longrightarrow> 0 < a \<Longrightarrow> a + 7 \<le> MAXORDINAL \<Longrightarrow>
   run_gen (Suspended a mx) =
     ((a, a + 7) # fst (run_gen (Suspended (a + 7) mx)), snd (run_gen (Suspended (a + 7) mx)))"
  by (subst run_gen.simps) (simp add: loop_test_def date_plus_def split: prod.splits)

lemma weeks_Suc: "weeks a (Suc n) = (a, a + 7) # weeks (a + 7) n"
  by (simp add: weeks_def map_upt_Suc algebra_simps del: upt_Suc)

lemma run_gen_weeks:
  "0 < a \<Longrightarrow> a mod 7 = 1 \<Longrightarrow> mx \<le> 3652054 \<Longrightarrow>
   run_gen (Suspended a mx) = (weeks a (nat ((mx - a + 7) div 7)), None)"
proof (induction "nat (mx + 1 - a)" arbitrary: a rule: less_induct)
  case less
  show ?case
  proof (cases "a \<le> mx")
    case False
    then have "nat ((mx - a + 7) div 7) = 0" by simp
    with False show ?thesis by (simp add: run_gen_stop weeks_def)
  next
    case True
    have "3652054 mod 7 = (0::int)" by simp
    with True less.prems have "a \<noteq> 3652054" by auto
    with True less.prems have "a mod 7 = 1" "a < 3652054" by simp_all
    then have "a \<noteq> 3652053" "a \<noteq> 3652052" "a \<noteq> 3652051" "a \<noteq> 3652050" "a \<noteq> 3652049"
      by auto
    with \<open>a < 3652054\<close> have bound: "a + 7 \<le> MAXORDINAL"
      unfolding MAXORDINAL_def by simp
    have ih: "run_gen (Suspended (a + 7) mx) = (weeks (a + 7) (nat ((mx - (a + 7) + 7) div 7)), None)"
      using less.prems True by (intro less.hyps) simp_all
    have n: "nat ((mx - a + 7) div 7) = Suc (nat ((mx - (a + 7) + 7) div 7))"
      using True by (simp add: Suc_nat_eq_nat_zadd1)
    show ?thesis
      using True less.prems(1) bound by (simp add: run_gen_step ih n weeks_Suc)
  qed
qed

lemma run_gen_Fresh:
  "0 < mn \<Longrightarrow> mn \<le> MAXORDINAL \<Longrightarrow>
   run_gen (Fresh mn mx) = run_gen (Suspended (mn - weekday mn) mx)"
proof -
  assume a: "0 < mn" "mn \<le> MAXORDINAL"
  have "0 \<le> weekday mn" "0 < mn - weekday mn"
    using a(1) unfolding weekday_def by presburger+
  with a(2) have "0 < mn - weekday mn" "mn - weekday mn \<le> MAXORDINAL"
    by simp_all
  then have "gen_next (Fresh mn mx) = gen_next (Suspended (mn - weekday mn) mx)"
    by (simp add: date_plus_def)
  then show ?thesis
    by (subst run_gen.simps, subst (2) run_gen.simps) simp
qed

lemma weeks_nth: "i < n \<Longrightarrow> weeks a n ! i = (a + 7 * int i, a + 7 * int i + 7)"
  by (simp add: weeks_def)

lemma weeks_last: "0 < n \<Longrightarrow> last (weeks a n) = (a + 7 * int (n - 1), a + 7 * int (n - 1) + 7)"
  by (cases n) (simp_all add: weeks_def)

lemma weeks_span: "p \<in> set (weeks a n) \<Longrightarrow> snd p = fst p + 7"
  by (auto simp: weeks_def)

lemma weekday_range: "0 \<le> weekday d" "weekday d < 7"
  by (simp_all add: weekday_def)

lemma monday_mod: "(d - weekday d) mod 7 = 1"
  unfolding weekday_def by presburger

lemma monday_weekday: "weekday (d - weekday d) = 0"
  unfolding weekday_def by presburger

lemma monday_pos: "0 < d \<Longrightarrow> 0 < d - weekday d"
  unfolding weekday_def by presburger

lemma week_count:
  assumes "(m::int) \<le> mx" and "n = nat ((mx - m + 7) div 7)"
  shows "0 < n" and "m + 7 * int (n - 1) \<le> mx" and "mx < m + 7 * int (n - 1) + 7"
proof -
  have "0 \<le> (mx - m) div 7" using assms(1) by simp
  moreover have "(mx - m + 7) div 7 = (mx - m) div 7 + 1" by simp
  ultimately have n: "int n = (mx - m) div 7 + 1" using assms(2) by simp
  then show "0 < n" using \<open>0 \<le> (mx - m) div 7\<close> by linarith
  then have "int (n - 1) = (mx - m) div 7" using n by (simp add: of_nat_diff)
  then show "m + 7 * int (n - 1) \<le> mx" and "mx < m + 7 * int (n - 1) + 7"
    by presburger+
qed

text \<open>
  Claim C1, as amended. For dates \<open>minDate \<le> maxDate\<close> with \<open>maxDate\<close> no later than
  9999-12-26 (ordinal 3652054, the last day whose week ends inside the range of
  \<^verbatim>\<open>datetime.date\<close>), the generator runs to its end without raising and yields a
  non-empty sequence of pairs: the first start is a Monday, at most \<open>minDate\<close> and
  later than \<open>minDate\<close> minus 7 days; every pair spans exactly 7 days; each pair's end is
  the next pair's start; and the last pair's half-open span contains \<open>maxDate\<close>.
\<close>

theorem monday_pairs_cover_range:
  assumes "0 < minDate" and "minDate \<le> maxDate" and "maxDate \<le> 3652054"
  shows "\<exists>g ps. mondayPairsIteratorFactory (PyDate minDate) (PyDate maxDate) = Inr g
           \<and> run_gen g = (ps, None) \<and> ps \<noteq> []
           \<and> weekday (fst (hd ps)) = 0 \<and> fst (hd ps) \<le> minDate \<and> minDate - 7 < fst (hd ps)
           \<and> (\<forall>p \<in> set ps. snd p = fst p + 7)
           \<and> (\<forall>i. Suc i < length ps \<longrightarrow> snd (ps ! i) = fst (ps ! Suc i))
           \<and> fst (last ps) \<le> maxDate \<and> maxDate < snd (last ps)"
proof -
  define m where "m = minDate - weekday minDate"
  define n where "n = nat ((maxDate - m + 7) div 7)"
  have m: "0 < m" "m mod 7 = 1" "weekday m = 0"
    unfolding m_def using assms(1) by (rule monday_pos, rule_tac monday_mod, rule_tac monday_weekday)
  have m': "m \<le> minDate" "minDate - 7 < m"
    using weekday_range [of minDate] by (simp_all add: m_def)
  have n: "0 < n" "m + 7 * int (n - 1) \<le> maxDate" "maxDate < m + 7 * int (n - 1) + 7"
    using week_count [of m maxDate n] m'(1) assms(2) n_def by simp_all
  have "minDate \<le> MAXORDINAL" using assms(2,3) by (simp add: MAXORDINAL_def)
  then have "run_gen (Fresh minDate maxDate) = run_gen (Suspended m maxDate)"
    using assms(1) unfolding m_def by (rule run_gen_Fresh [rotated])
  also have "\<dots> = (weeks m n, None)"
    unfolding n_def using m(1,2) assms(3) by (rule run_gen_weeks)
  finally have run: "run_gen (Fresh minDate maxDate) = (weeks m n, None)" .
  have fac: "mondayPairsIteratorFactory (PyDate minDate) (PyDate maxDate) = Inr (Fresh minDate maxDate)"
    using assms(2) by (simp add: mondayPairsIteratorFactory_def)
  have len: "length (weeks m n) = n" by (simp add: weeks_def)
  have hd: "hd (weeks m n) = (m, m + 7)"
    using n(1) by (cases n) (simp_all add: weeks_Suc)
  have chain: "\<forall>i. Suc i < length (weeks m n) \<longrightarrow> snd (weeks m n ! i) = fst (weeks m n ! Suc i)"
    by (simp add: len weeks_nth)
  have ne: "weeks m n \<noteq> []" using n(1) len by auto
  have lst: "last (weeks m n) = (m + 7 * int (n - 1), m + 7 * int (n - 1) + 7)"
    using n(1) by (rule weeks_last)
  show ?thesis
  proof (intro exI conjI)
    show "mondayPairsIteratorFactory (PyDate minDate) (PyDate maxDate) = Inr (Fresh minDate maxDate)"
      by (rule fac)
    show "run_gen (Fresh minDate maxDate) = (weeks m n, None)" by (rule run)
    show "weeks m n \<noteq> []" by (rule ne)
    show "weekday (fst (hd (weeks m n))) = 0" by (simp add: hd m(3))
    show "fst (hd (weeks m n)) \<le> minDate" by (simp add: hd m'(1))
    show "minDate - 7 < fst (hd (weeks m n))" by (simp add: hd m'(2))
    show "\<forall>p \<in> set (weeks m n). snd p = fst p + 7" using weeks_span by blast
    show "\<forall>i. Suc i < length (weeks m n) \<longrightarrow> snd (weeks m n ! i) = fst (weeks m n ! Suc i)"
      by (rule chain)
    show "fst (last (weeks m n)) \<le> maxDate" using n(2) by (simp add: lst)
    show "maxDate < snd (last (weeks m n))" using n(3) by (simp add: lst)
  qed
qed

text \<open>
  The theorem at 2024-06-05 to 2024-06-12, the example of the specification.
\<close>

theorem monday_pairs_cover_range_witness:
  "\<exists>g ps. mondayPairsIteratorFactory (PyDate 739042) (PyDate 739049) = Inr g
     \<and> run_gen g = (ps, None) \<and> ps \<noteq> []
     \<and> weekday (fst (hd ps)) = 0 \<and> fst (hd ps) \<le> 739042 \<and> 739042 - 7 < fst (hd ps)
     \<and> (\<forall>p \<in> set ps. snd p = fst p + 7)
     \<and> (\<forall>i. Suc i < length ps \<longrightarrow> snd (ps ! i) = fst (ps ! Suc i))
     \<and> fst (last ps) \<le> 739049 \<and> 739049 < snd (last ps)"
  by (rule monday_pairs_cover_range) simp_all

text \<open>
  Claim C1 as stated fails at \<open>minDate = maxDate =\<close> 9999-12-31 (ordinal 3652059, a
  Friday): the Monday of that week is 9999-12-27, and computing the following Monday
  raises \<^verbatim>\<open>OverflowError\<close> before any pair is yielded.
\<close>

theorem monday_pairs_overflow_counterexample:
  "3652059 \<le> MAXORDINAL
   \<and> mondayPairsIteratorFactory (PyDate 3652059) (PyDate 3652059) = Inr (Fresh 3652059 3652059)
   \<and> run_gen (Fresh 3652059 3652059) = ([], Some OverflowError)"
  by (simp add: mondayPairsIteratorFactory_def run_gen.simps [of "Fresh 3652059 3652059"]
        date_plus_def weekday_def loop_test_def MAXORDINAL_def)

text \<open>
  Claim C9. For date values, the factory raises \<^verbatim>\<open>ValueError\<close> and returns no
  generator (so no window is produced) when \<open>maxDate < minDate\<close>, and returns a
  generator without raising when \<open>minDate \<le> maxDate\<close>.
\<close>

theorem factory_rejects_reversed_range:
  "(maxDate < minDate \<longrightarrow>
      mondayPairsIteratorFactory (PyDate minDate) (PyDate maxDate) = Inl ValueError)
   \<and> (minDate \<le> maxDate \<longrightarrow>
      (\<exists>g. mondayPairsIteratorFactory (PyDate minDate) (PyDate maxDate) = Inr g))"
  by (simp add: mondayPairsIteratorFactory_def)

theorem factory_rejects_reversed_range_witness:
  "mondayPairsIteratorFactory (PyDate 739049) (PyDate 739042) = Inl ValueError
   \<and> (\<exists>g. mondayPairsIteratorFactory (PyDate 739042) (PyDate 739049) = Inr g)"
  using factory_rejects_reversed_range [of 739042 739049]
        factory_rejects_reversed_range [of 739049 739042]
  by simp


lemma date_string_20240603: "date_string 739040 = ''2024-06-03''"
  by code_simp

lemma date_string_20240610: "date_string 739047 = ''2024-06-10''"
  by code_simp

lemma reports_parameters:
  "partitionCreationParameters ReportsTable (739040, 739047) =
     [(''partitionName'', ''reports_20240603''), (''startDate'', ''2024-06-03''),
      (''endDate'', ''2024-06-10''), (''compressedStartDate'', ''20240603'')]"
  by (simp add: partitionCreationParameters_def date_string_20240603 date_string_20240610 Let_def)




section \<open>Rules for statement sequences\<close>

lemma hoareD:
  "hoare P m Q E \<Longrightarrow> P s \<Longrightarrow> m s = (r, s') \<Longrightarrow> (case r of Inr v \<Rightarrow> Q v s' | Inl x \<Rightarrow> E x s')"
  by (auto simp: hoare_def split: sum.splits)

lemma hoare_return: "(\<And>s. P s \<Longrightarrow> Q v s) \<Longrightarrow> hoare P (return v) Q E"
  by (simp add: hoare_def return_def)

lemma hoare_raise: "(\<And>s. P s \<Longrightarrow> E x s) \<Longrightarrow> hoare P (raise x) Q E"
  by (simp add: hoare_def raise_def)

lemma hoare_lift:
  "(\<And>s v. P s \<Longrightarrow> r = Inr v \<Longrightarrow> Q v s) \<Longrightarrow> (\<And>s x. P s \<Longrightarrow> r = Inl x \<Longrightarrow> E x s)
   \<Longrightarrow> hoare P (lift r) Q E"
  by (cases r) (simp_all add: hoare_def lift_def return_def raise_def)

lemma hoare_debug:
  "(\<And>s. P s \<Longrightarrow> Q () (s\<lparr>trace := trace s @ [Debug msg]\<rparr>)) \<Longrightarrow> hoare P (debug msg) Q E"
  by (simp add: hoare_def debug_def)

lemma hoare_perform:
  "(\<And>s. P s \<Longrightarrow> db (trace s) cur a = None \<Longrightarrow> Q () (s\<lparr>trace := trace s @ [Db cur a None]\<rparr>))
   \<Longrightarrow> (\<And>s x. P s \<Longrightarrow> db (trace s) cur a = Some x
          \<Longrightarrow> E x (s\<lparr>trace := trace s @ [Db cur a (Some x)]\<rparr>))
   \<Longrightarrow> hoare P (perform db cur a) Q E"
  by (auto simp: hoare_def perform_def Let_def split: option.splits)

lemma hoare_execute:
  "(\<And>s. P s \<Longrightarrow> db (trace s) cur (Execute st) = None
       \<Longrightarrow> Q () (s\<lparr>trace := trace s @ [Db cur (Execute st) None]\<rparr>))
   \<Longrightarrow> (\<And>s x. P s \<Longrightarrow> db (trace s) cur (Execute st) = Some x
          \<Longrightarrow> E x (s\<lparr>trace := trace s @ [Db cur (Execute st) (Some x)]\<rparr>))
   \<Longrightarrow> hoare P (execute db cur st) Q E"
  unfolding execute_def by (rule hoare_perform)

lemma hoare_and_then:
  "hoare P m R E \<Longrightarrow> (\<And>v. hoare (R v) (f v) Q E) \<Longrightarrow> hoare P (and_then m f) Q E"
  unfolding hoare_def and_then_def
  by (auto split: prod.splits sum.splits) (metis (mono_tags, lifting) case_prod_conv old.sum.simps)+

lemma hoare_try_except:
  "hoare P m Q E' \<Longrightarrow> (\<And>x. catches x \<Longrightarrow> hoare (E' x) (h x) Q E)
   \<Longrightarrow> (\<And>x s. E' x s \<Longrightarrow> \<not> catches x \<Longrightarrow> E x s)
   \<Longrightarrow> hoare P (try_except m catches h) Q E"
  unfolding hoare_def try_except_def
  by (auto split: prod.splits sum.splits) (metis (mono_tags, lifting) case_prod_conv old.sum.simps)+

lemma hoare_for_each:
  "(\<And>x. x \<in> set xs \<Longrightarrow> hoare I (body x) (\<lambda>_. I) E) \<Longrightarrow> hoare I (for_each xs body) (\<lambda>_. I) E"
proof (induction xs)
  case Nil
  show ?case by (simp add: hoare_return)
next
  case (Cons x xs)
  show ?case
    unfolding for_each.simps
    by (rule hoare_and_then [where R = "\<lambda>_. I"]) (simp_all add: Cons)
qed

lemma hoare_weaken:
  "hoare P' m Q' E' \<Longrightarrow> (\<And>s. P s \<Longrightarrow> P' s) \<Longrightarrow> (\<And>v s. Q' v s \<Longrightarrow> Q v s)
   \<Longrightarrow> (\<And>x s. E' x s \<Longrightarrow> E x s) \<Longrightarrow> hoare P m Q E"
  unfolding hoare_def by (fastforce split: prod.splits sum.splits)

lemma hoare_if:
  "(b \<Longrightarrow> hoare P m Q E) \<Longrightarrow> (\<not> b \<Longrightarrow> hoare P n Q E) \<Longrightarrow> hoare P (if b then m else n) Q E"
  by simp

lemma preserves_return: "preserves I E (return v)"
  unfolding preserves_def by (rule hoare_return)

lemma preserves_raise: "(\<And>s. I s \<Longrightarrow> E x s) \<Longrightarrow> preserves I E (raise x)"
  unfolding preserves_def by (rule hoare_raise)

lemma preserves_lift: "(\<And>s x. I s \<Longrightarrow> E x s) \<Longrightarrow> preserves I E (lift r)"
  unfolding preserves_def by (rule hoare_lift)

lemma preserves_debug:
  "(\<And>s. I s \<Longrightarrow> I (s\<lparr>trace := trace s @ [Debug msg]\<rparr>)) \<Longrightarrow> preserves I E (debug msg)"
  unfolding preserves_def by (rule hoare_debug)

lemma preserves_perform:
  "(\<And>s. I s \<Longrightarrow> I (s\<lparr>trace := trace s @ [Db cur a None]\<rparr>))
   \<Longrightarrow> (\<And>s x. I s \<Longrightarrow> E x (s\<lparr>trace := trace s @ [Db cur a (Some x)]\<rparr>))
   \<Longrightarrow> preserves I E (perform db cur a)"
  unfolding preserves_def by (rule hoare_perform)

lemma preserves_execute:
  "(\<And>s. I s \<Longrightarrow> I (s\<lparr>trace := trace s @ [Db cur (Execute st) None]\<rparr>))
   \<Longrightarrow> (\<And>s x. I s \<Longrightarrow> E x (s\<lparr>trace := trace s @ [Db cur (Execute st) (Some x)]\<rparr>))
   \<Longrightarrow> preserves I E (execute db cur st)"
  unfolding execute_def by (rule preserves_perform)

lemma preserves_partitionWasCreated: "preserves I E (partitionWasCreated n)"
  by (simp add: preserves_def hoare_def partitionWasCreated_def)

lemma preserves_markPartitionCreated:
  "(\<And>s. I s \<Longrightarrow> I (s\<lparr>partitionCreationHistory := insert n (partitionCreationHistory s)\<rparr>))
   \<Longrightarrow> preserves I E (markPartitionCreated n)"
  by (simp add: preserves_def hoare_def markPartitionCreated_def)

lemma preserves_and_then:
  "preserves I E m \<Longrightarrow> (\<And>v. preserves I E (f v)) \<Longrightarrow> preserves I E (and_then m f)"
  unfolding preserves_def by (rule hoare_and_then)

lemma preserves_try_except:
  "preserves I E m \<Longrightarrow> (\<And>x s. E x s \<Longrightarrow> catches x \<Longrightarrow> I s)
   \<Longrightarrow> (\<And>x. catches x \<Longrightarrow> preserves I E (h x))
   \<Longrightarrow> preserves I E (try_except m catches h)"
  unfolding preserves_def
proof (rule hoare_try_except [where E' = E])
  fix x assume c: "catches x" and i: "\<And>x s. E x s \<Longrightarrow> catches x \<Longrightarrow> I s"
    and h: "\<And>x. catches x \<Longrightarrow> hoare I (h x) (\<lambda>_. I) E"
  show "hoare (E x) (h x) (\<lambda>_. I) E"
    by (rule hoare_weaken [OF h [OF c]]) (simp_all add: i c)
qed simp_all

lemma preserves_for_each:
  "(\<And>x. x \<in> set xs \<Longrightarrow> preserves I E (body x)) \<Longrightarrow> preserves I E (for_each xs body)"
  unfolding preserves_def by (rule hoare_for_each)

lemma preserves_if:
  "(b \<Longrightarrow> preserves I E m) \<Longrightarrow> (\<not> b \<Longrightarrow> preserves I E n) \<Longrightarrow> preserves I E (if b then m else n)"
  by simp

lemma preservesD:
  "preserves I E m \<Longrightarrow> I s \<Longrightarrow> m s = (r, s') \<Longrightarrow> (case r of Inr v \<Rightarrow> I s' | Inl x \<Rightarrow> E x s')"
  unfolding preserves_def by (rule hoareD)

lemmas preserves_structure = preserves_and_then preserves_for_each preserves_if preserves_return
  preserves_partitionWasCreated

lemma createSelf_eq: "createSelf db self cur = execute db cur (creationSql self)"
  by (rule ext)
     (simp add: createSelf_def additionalCreationProcedures_def and_then_def return_def
        split: prod.splits sum.splits)

lemma and_then_lift_Inr [simp]: "and_then (lift (Inr v)) f = f v"
  by (rule ext) (simp add: and_then_def lift_def return_def)

lemma and_then_lift_Inl [simp]: "and_then (lift (Inl x)) f = raise x"
  by (rule ext) (simp add: and_then_def lift_def raise_def)

lemma perform_None: "db (trace s) cur a = None \<Longrightarrow>
   perform db cur a s = (Inr (), s\<lparr>trace := trace s @ [Db cur a None]\<rparr>)"
  by (simp add: perform_def)

lemma perform_Some: "db (trace s) cur a = Some x \<Longrightarrow>
   perform db cur a s = (Inl x, s\<lparr>trace := trace s @ [Db cur a (Some x)]\<rparr>)"
  by (simp add: perform_def)

lemmas step_defs = and_then_def try_except_def return_def raise_def execute_def debug_def
  perform_None perform_Some

lemmas run_defs = and_then_def try_except_def return_def raise_def lift_def
  perform_def execute_def debug_def createSelf_eq
  create_def create_step_def new_def
  getOrderedSetupList_def getOrderedPartitionList_def dependencyOrder_def dependencies_def
  databaseDependenciesForSetup_def databaseDependenciesForPartition_def
  is_ProgrammingError_def is_DatabaseError_def empty_state_def

lemmas partition_defs = createOwnPartition_def createOwnPartition_step_def subscript_def
  partitionWasCreated_def markPartitionCreated_def reports_parameters


lemma trace_empty_state: "trace empty_state = []"
  by (simp add: empty_state_def)

section \<open>Properties of idempotent creation\<close>

subsection \<open>Which failures are recovered\<close>

lemma fatal_weaken: "only_programming_errors s0 s \<Longrightarrow> raised_is_the_fatal s0 x s"
  by (auto simp: only_programming_errors_def raised_is_the_fatal_def)

lemma fatal_caught:
  "raised_is_the_fatal s0 x s \<Longrightarrow> is_ProgrammingError x \<Longrightarrow> only_programming_errors s0 s"
  by (auto simp: only_programming_errors_def raised_is_the_fatal_def)

lemma fatal_debug:
  "only_programming_errors s0 s \<Longrightarrow> only_programming_errors s0 (s\<lparr>trace := trace s @ [Debug msg]\<rparr>)"
  by (auto simp: only_programming_errors_def)

lemma fatal_mark:
  "only_programming_errors s0 s \<Longrightarrow> only_programming_errors s0 (s\<lparr>partitionCreationHistory := h\<rparr>)"
  by (auto simp: only_programming_errors_def)

lemma fatal_ok:
  "only_programming_errors s0 s \<Longrightarrow> only_programming_errors s0 (s\<lparr>trace := trace s @ [Db c a None]\<rparr>)"
  by (auto simp: only_programming_errors_def)

lemma fatal_failed:
  "only_programming_errors s0 s \<Longrightarrow> raised_is_the_fatal s0 x (s\<lparr>trace := trace s @ [Db c a (Some x)]\<rparr>)"
  by (auto simp: only_programming_errors_def raised_is_the_fatal_def)

lemma fatal_prims:
  "preserves (only_programming_errors s0) (raised_is_the_fatal s0) (raise x :: 'a prog)"
  "preserves (only_programming_errors s0) (raised_is_the_fatal s0) (lift v)"
  "preserves (only_programming_errors s0) (raised_is_the_fatal s0) (debug msg)"
  "preserves (only_programming_errors s0) (raised_is_the_fatal s0) (execute db cur st)"
  "preserves (only_programming_errors s0) (raised_is_the_fatal s0) (perform db cur a)"
  "preserves (only_programming_errors s0) (raised_is_the_fatal s0) (markPartitionCreated n)"
  by (rule preserves_raise preserves_lift preserves_debug preserves_execute preserves_perform
        preserves_markPartitionCreated,
      (erule fatal_weaken fatal_debug fatal_ok fatal_failed fatal_mark)+)+

lemma fatal_try:
  "preserves (only_programming_errors s0) (raised_is_the_fatal s0) m
   \<Longrightarrow> (\<And>x. preserves (only_programming_errors s0) (raised_is_the_fatal s0) (h x))
   \<Longrightarrow> preserves (only_programming_errors s0) (raised_is_the_fatal s0)
         (try_except m is_ProgrammingError h)"
  by (rule preserves_try_except) (auto elim: fatal_caught)

lemmas fatal_rules = preserves_structure fatal_try fatal_prims

lemma fatal_create:
  "preserves (only_programming_errors s0) (raised_is_the_fatal s0) (create db self cur)"
  unfolding create_def create_step_def createSelf_eq Let_def
  by (intro fatal_rules)

lemma fatal_createOwnPartition:
  "preserves (only_programming_errors s0) (raised_is_the_fatal s0) (createOwnPartition db self cur items)"
  unfolding createOwnPartition_def createOwnPartition_step_def createSelf_eq Let_def
  by (intro fatal_rules)

lemma fatal_conclusion:
  assumes "preserves (only_programming_errors s) (raised_is_the_fatal s) m"
    and "m s = (r, s')" and "Db c a (Some x) \<in> set (emitted s s')" and "\<not> is_ProgrammingError x"
  shows "r = Inl x"
proof -
  have "only_programming_errors s s" by (simp add: only_programming_errors_def)
  from preservesD [OF assms(1) this assms(2)] assms(3,4) show ?thesis
    by (cases r) (fastforce simp: only_programming_errors_def raised_is_the_fatal_def emitted_def)+
qed

text \<open>
  A turn of the loop of \<^verbatim>\<open>DatabaseObject.create\<close> whose creation statement raises
  a \<^verbatim>\<open>ProgrammingError\<close>, when the savepoint is taken and the two statements of the
  handler succeed: the operations are exactly savepoint, the failed creation, rollback to
  the savepoint, commit of the connection, and a debug record, after which the turn returns
  normally.
\<close>

lemma create_step_programming_error:
  assumes "dbObjectObject = (if objClass self \<noteq> dbObjectClass then new dbObjectClass else self)"
    and "db (trace s) cur (Execute (Sql (''savepoint creating_'' @ name dbObjectObject))) = None"
    and "db (trace s @ [Db cur (Execute (Sql (''savepoint creating_'' @ name dbObjectObject))) None])
            cur (Execute (creationSql dbObjectObject)) = Some x"
    and "is_ProgrammingError x"
    and "db (trace s @ [Db cur (Execute (Sql (''savepoint creating_'' @ name dbObjectObject))) None,
                        Db cur (Execute (creationSql dbObjectObject)) (Some x)])
            cur (Execute (Sql (''rollback to creating_'' @ name dbObjectObject))) = None"
    and "db (trace s @ [Db cur (Execute (Sql (''savepoint creating_'' @ name dbObjectObject))) None,
                        Db cur (Execute (creationSql dbObjectObject)) (Some x),
                        Db cur (Execute (Sql (''rollback to creating_'' @ name dbObjectObject))) None])
            cur Commit = None"
  shows "create_step db self cur dbObjectClass s =
     (Inr (), s\<lparr>trace := trace s @
        [Db cur (Execute (Sql (''savepoint creating_'' @ name dbObjectObject))) None,
         Db cur (Execute (creationSql dbObjectObject)) (Some x),
         Db cur (Execute (Sql (''rollback to creating_'' @ name dbObjectObject))) None,
         Db cur Commit None,
         Debug (''in create for '' @ name self @ '', dbObject '' @ name dbObjectObject @ '' exists'')]\<rparr>)"
proof (cases "objClass self = dbObjectClass")
  case True
  with assms(1) have "dbObjectObject = self" by simp
  with assms(2-) True show ?thesis
    by (simp add: create_step_def Let_def createSelf_eq step_defs)
next
  case False
  with assms(1) have "dbObjectObject = new dbObjectClass" by simp
  with assms(2-) False show ?thesis
    by (simp add: create_step_def Let_def createSelf_eq step_defs)
qed

lemma create_step_recovers:
  assumes "is_ProgrammingError y"
    and "obj = (if objClass self \<noteq> k then new k else self)"
    and "db (trace s) cur (Execute (Sql (''savepoint creating_'' @ name obj))) = None"
    and "db (trace s @ take 1 (step_events cur self k (Some y))) cur (Execute (creationSql obj)) = Some y"
    and "db (trace s @ take 2 (step_events cur self k (Some y))) cur
            (Execute (Sql (''rollback to creating_'' @ name obj))) = None"
    and "db (trace s @ take 3 (step_events cur self k (Some y))) cur Commit = None"
  shows "create_step db self cur k s =
           (Inr (), s\<lparr>trace := trace s @ step_events cur self k (Some y)\<rparr>)"
proof -
  have ev: "step_events cur self k (Some y) =
      [Db cur (Execute (Sql (''savepoint creating_'' @ name obj))) None,
       Db cur (Execute (creationSql obj)) (Some y),
       Db cur (Execute (Sql (''rollback to creating_'' @ name obj))) None,
       Db cur Commit None,
       Debug (''in create for '' @ name self @ '', dbObject '' @ name obj @ '' exists'')]"
    by (simp add: step_events_def assms(2) Let_def)
  show ?thesis
    unfolding ev
    by (rule create_step_programming_error [OF assms(2)])
       (use assms(1,3-) in \<open>simp_all add: ev\<close>)
qed

lemma createOwnPartition_step_recovers:
  assumes "is_ProgrammingError y"
    and "subscript (partitionCreationParameters (objClass self) x) ''partitionName'' = Inr partitionName"
    and "partitionName \<notin> partitionCreationHistory s"
    and "events = partition_events cur (objClass self) x partitionName (Some y)"
    and "db (trace s @ take 1 events) cur
            (Execute (Sql (''savepoint createPartitions_'' @ partitionName))) = None"
    and "db (trace s @ take 3 events) cur
            (Execute (PartitionCreationSql (objClass self) (partitionCreationParameters (objClass self) x)))
            = Some y"
    and "db (trace s @ take 5 events) cur
            (Execute (Sql (''rollback to createPartitions_'' @ partitionName
                     @ ''; release savepoint createPartitions_'' @ partitionName @ '';''))) = None"
    and "db (trace s @ take 6 events) cur Commit = None"
  shows "createOwnPartition_step db self cur x s = (Inr (), s\<lparr>trace := trace s @ events\<rparr>)"
  using assms(1-3,5-) unfolding assms(4)
  by (simp add: createOwnPartition_step_def partition_events_def Let_def createSelf_eq
        partitionWasCreated_def step_defs)

text \<open>
  Claim C2, as amended. In \<^verbatim>\<open>DatabaseObject.create\<close> and in
  \<^verbatim>\<open>PartitionedTable._createOwnPartition\<close>, a failure of an action on a cursor that
  is not a \<^verbatim>\<open>pg.ProgrammingError\<close> is raised to the caller: whenever an action fails
  with such an exception \<open>x\<close>, the call raises \<open>x\<close> (the first two parts). A
  \<^verbatim>\<open>pg.ProgrammingError\<close> of the creation statement is recovered locally, whatever
  its cause: in a turn of either loop, when the savepoint is taken, the creation statement
  raises a \<^verbatim>\<open>ProgrammingError\<close> \<open>y\<close> and the statements of the handler (the
  rollback and the commit) succeed, the turn returns normally, having added to the trace
  exactly the events of the recovery (the last two parts). Nothing is said of a
  \<^verbatim>\<open>ProgrammingError\<close> raised by the savepoint statement or by a statement of the
  handler, which are outside the \<^verbatim>\<open>try\<close> block.
\<close>

theorem programming_errors_recovered_others_propagate:
  "(create db self cur s = (r, s') \<longrightarrow>
      Db c a (Some x) \<in> set (emitted s s') \<longrightarrow> \<not> is_ProgrammingError x \<longrightarrow> r = Inl x)
   \<and> (createOwnPartition db self cur uniqueItems s = (r, s') \<longrightarrow>
      Db c a (Some x) \<in> set (emitted s s') \<longrightarrow> \<not> is_ProgrammingError x \<longrightarrow> r = Inl x)
   \<and> (is_ProgrammingError y \<longrightarrow>
      obj = (if objClass self \<noteq> k then new k else self) \<longrightarrow>
      db (trace s) cur (Execute (Sql (''savepoint creating_'' @ name obj))) = None \<longrightarrow>
      db (trace s @ take 1 (step_events cur self k (Some y))) cur (Execute (creationSql obj)) = Some y \<longrightarrow>
      db (trace s @ take 2 (step_events cur self k (Some y))) cur
         (Execute (Sql (''rollback to creating_'' @ name obj))) = None \<longrightarrow>
      db (trace s @ take 3 (step_events cur self k (Some y))) cur Commit = None \<longrightarrow>
      create_step db self cur k s =
        (Inr (), s\<lparr>trace := trace s @ step_events cur self k (Some y)\<rparr>))
   \<and> (is_ProgrammingError y \<longrightarrow>
      subscript (partitionCreationParameters (objClass self) w) ''partitionName'' = Inr partitionName \<longrightarrow>
      partitionName \<notin> partitionCreationHistory s \<longrightarrow>
      events = partition_events cur (objClass self) w partitionName (Some y) \<longrightarrow>
      db (trace s @ take 1 events) cur
         (Execute (Sql (''savepoint createPartitions_'' @ partitionName))) = None \<longrightarrow>
      db (trace s @ take 3 events) cur
         (Execute (PartitionCreationSql (objClass self) (partitionCreationParameters (objClass self) w)))
         = Some y \<longrightarrow>
      db (trace s @ take 5 events) cur
         (Execute (Sql (''rollback to createPartitions_'' @ partitionName
                  @ ''; release savepoint createPartitions_'' @ partitionName @ '';''))) = None \<longrightarrow>
      db (trace s @ take 6 events) cur Commit = None \<longrightarrow>
      createOwnPartition_step db self cur w s = (Inr (), s\<lparr>trace := trace s @ events\<rparr>))"
proof (intro conjI impI)
  show "r = Inl x"
    if "create db self cur s = (r, s')" "Db c a (Some x) \<in> set (emitted s s')"
       "\<not> is_ProgrammingError x"
    using fatal_conclusion [OF fatal_create] that by blast
  show "r = Inl x"
    if "createOwnPartition db self cur uniqueItems s = (r, s')"
       "Db c a (Some x) \<in> set (emitted s s')" "\<not> is_ProgrammingError x"
    using fatal_conclusion [OF fatal_createOwnPartition] that by blast
qed (erule (5) create_step_recovers, erule (7) createOwnPartition_step_recovers)

lemma create_shutdown:
  "create db_shutdown (new ReleaseEnum) 0 empty_state =
     (Inl (PgError OperationalError ''57P01''),
      \<lparr>trace =
         [Db 0 (Execute (Sql ''savepoint creating_release_enum'')) None,
          Db 0 (Execute (CreationSql ReleaseEnum)) (Some (PgError OperationalError ''57P01''))],
       partitionCreationHistory = {}\<rparr>)"
  by (simp add: run_defs db_shutdown_def)

lemma createOwnPartition_shutdown:
  "createOwnPartition db_shutdown (new ReportsTable) 0 [(739040, 739047)] empty_state =
     (Inl (PgError OperationalError ''57P01''),
      \<lparr>trace =
         [Debug ''in createOwnPartition for reports'',
          Debug ''savepoint createPartitions_reports_20240603'',
          Db 0 (Execute (Sql ''savepoint createPartitions_reports_20240603'')) None,
          Debug ''creating reports_20240603'',
          Db 0 (Execute (PartitionCreationSql ReportsTable
                  (partitionCreationParameters ReportsTable (739040, 739047))))
            (Some (PgError OperationalError ''57P01''))],
       partitionCreationHistory = {}\<rparr>)"
  by (simp add: run_defs partition_defs db_shutdown_def Let_def)

text \<open>
  The theorem on a database that is shutting down, where both calls raise the
  \<^verbatim>\<open>OperationalError\<close> of the creation statement, and on a database where every
  creation statement has a syntax error, where the turn of either loop returns normally.
\<close>

theorem programming_errors_recovered_others_propagate_witness:
  "fst (create db_shutdown (new ReleaseEnum) 0 empty_state) = Inl (PgError OperationalError ''57P01'')
   \<and> fst (createOwnPartition db_shutdown (new ReportsTable) 0 [(739040, 739047)] empty_state)
       = Inl (PgError OperationalError ''57P01'')
   \<and> create_step db_syntax_error (new ReleaseEnum) 0 ReleaseEnum empty_state =
       (Inr (), empty_state\<lparr>trace := trace empty_state @
          step_events 0 (new ReleaseEnum) ReleaseEnum (Some (PgError ProgrammingError ''42601''))\<rparr>)
   \<and> createOwnPartition_step db_syntax_error (new ReportsTable) 0 (739040, 739047) empty_state =
       (Inr (), empty_state\<lparr>trace := trace empty_state @
          partition_events 0 (objClass (new ReportsTable)) (739040, 739047) ''reports_20240603''
            (Some (PgError ProgrammingError ''42601''))\<rparr>)"
proof -
  let ?x = "PgError OperationalError ''57P01''"
  let ?y = "PgError ProgrammingError ''42601''"
  let ?c = "create db_shutdown (new ReleaseEnum) 0 empty_state"
  let ?p = "createOwnPartition db_shutdown (new ReportsTable) 0 [(739040, 739047)] empty_state"
  have fatal: "\<not> is_ProgrammingError ?x" by (simp add: is_ProgrammingError_def)
  have pe: "is_ProgrammingError ?y" by (simp add: is_ProgrammingError_def)
  have "?c = (fst ?c, snd ?c)" by simp
  moreover have "Db 0 (Execute (CreationSql ReleaseEnum)) (Some ?x) \<in> set (emitted empty_state (snd ?c))"
    by (simp add: create_shutdown emitted_def trace_empty_state)
  ultimately have 1: "fst ?c = Inl ?x"
    using programming_errors_recovered_others_propagate [where db = db_shutdown
        and self = "new ReleaseEnum" and cur = 0 and s = empty_state and r = "fst ?c"
        and s' = "snd ?c" and c = 0 and a = "Execute (CreationSql ReleaseEnum)" and x = ?x] fatal
    by blast
  have "?p = (fst ?p, snd ?p)" by simp
  moreover have "Db 0 (Execute (PartitionCreationSql ReportsTable
                  (partitionCreationParameters ReportsTable (739040, 739047)))) (Some ?x)
                   \<in> set (emitted empty_state (snd ?p))"
    by (simp add: createOwnPartition_shutdown emitted_def trace_empty_state)
  ultimately have 2: "fst ?p = Inl ?x"
    using programming_errors_recovered_others_propagate [where db = db_shutdown
        and self = "new ReportsTable" and cur = 0 and s = empty_state and r = "fst ?p"
        and s' = "snd ?p" and c = 0 and x = ?x and uniqueItems = "[(739040, 739047)]"
        and a = "Execute (PartitionCreationSql ReportsTable
                  (partitionCreationParameters ReportsTable (739040, 739047)))"] fatal
    by blast
  have 3: "create_step db_syntax_error (new ReleaseEnum) 0 ReleaseEnum empty_state =
       (Inr (), empty_state\<lparr>trace := trace empty_state @
          step_events 0 (new ReleaseEnum) ReleaseEnum (Some ?y)\<rparr>)"
    by (rule programming_errors_recovered_others_propagate [THEN conjunct2, THEN conjunct2,
          THEN conjunct1, rule_format, where obj = "new ReleaseEnum", OF pe])
       (simp_all add: db_syntax_error_def new_def step_events_def)
  have 4: "createOwnPartition_step db_syntax_error (new ReportsTable) 0 (739040, 739047) empty_state =
       (Inr (), empty_state\<lparr>trace := trace empty_state @
          partition_events 0 (objClass (new ReportsTable)) (739040, 739047) ''reports_20240603''
            (Some ?y)\<rparr>)"
    by (rule programming_errors_recovered_others_propagate [THEN conjunct2, THEN conjunct2,
          THEN conjunct2, rule_format, OF pe _ _ refl])
       (simp_all add: db_syntax_error_def new_def subscript_def reports_parameters
          partition_events_def empty_state_def)
  from 1 2 3 4 show ?thesis by blast
qed

text \<open>
  Claim C2 as stated fails on a creation statement with a syntax error: the error is a
  \<^verbatim>\<open>ProgrammingError\<close> that is not an "already exists" condition, and
  \<^verbatim>\<open>create\<close> rolls back to the savepoint, commits, logs that the object exists and
  returns normally.
\<close>

theorem syntax_error_swallowed_counterexample:
  "\<not> already_exists (PgError ProgrammingError ''42601'')
   \<and> create db_syntax_error (new ReleaseEnum) 0 empty_state =
     (Inr (),
      \<lparr>trace =
         [Db 0 (Execute (Sql ''savepoint creating_release_enum'')) None,
          Db 0 (Execute (CreationSql ReleaseEnum)) (Some (PgError ProgrammingError ''42601'')),
          Db 0 (Execute (Sql ''rollback to creating_release_enum'')) None,
          Db 0 Commit None,
          Debug ''in create for release_enum, dbObject release_enum exists''],
       partitionCreationHistory = {}\<rparr>)"
  by (simp add: run_defs db_syntax_error_def already_exists_def)

subsection \<open>The sequence of operations on a collision\<close>

text \<open>
  Claim C6 asks, on the branch taken when the definition exists already, for a rollback to
  the savepoint, a release of the savepoint, and then a commit, so that the savepoint is
  released on every path. \<^verbatim>\<open>DatabaseObject.create\<close> does not do this: its handler
  executes the rollback and the commit and no release, although the success path of the
  same loop releases the savepoint and the handlers of \<^verbatim>\<open>_createOwnPartition\<close> and
  of \<^verbatim>\<open>insert\<close> release theirs in the statement that rolls back. The theorem runs
  \<^verbatim>\<open>create\<close> for \<^verbatim>\<open>ReleaseEnum\<close> on a database where the type exists and on
  one where it does not: in the first run the operations are savepoint, the failed
  creation, rollback to the savepoint, commit and a debug record, and the release statement
  is not among them; in the second run the savepoint is released.
\<close>

theorem create_collision_omits_release:
  "already_exists (PgError ProgrammingError ''42P07'')
   \<and> create db_collision (new ReleaseEnum) 0 empty_state =
     (Inr (),
      \<lparr>trace =
         [Db 0 (Execute (Sql ''savepoint creating_release_enum'')) None,
          Db 0 (Execute (CreationSql ReleaseEnum)) (Some (PgError ProgrammingError ''42P07'')),
          Db 0 (Execute (Sql ''rollback to creating_release_enum'')) None,
          Db 0 Commit None,
          Debug ''in create for release_enum, dbObject release_enum exists''],
       partitionCreationHistory = {}\<rparr>)
   \<and> Db 0 (Execute (Sql ''release savepoint creating_release_enum'')) None
       \<notin> set (trace (snd (create db_collision (new ReleaseEnum) 0 empty_state)))
   \<and> create db_ok (new ReleaseEnum) 0 empty_state =
     (Inr (),
      \<lparr>trace =
         [Db 0 (Execute (Sql ''savepoint creating_release_enum'')) None,
          Db 0 (Execute (CreationSql ReleaseEnum)) None,
          Db 0 (Execute (Sql ''release savepoint creating_release_enum'')) None],
       partitionCreationHistory = {}\<rparr>)"
  by (simp add: run_defs db_collision_def db_ok_def already_exists_def)

subsection \<open>The setup closure\<close>

lemma collisions_onlyD:
  assumes "collisions_only db"
  shows "db h c (Execute (Sql t)) = None" and "db h c Commit = None"
    and "db h c a = Some x \<Longrightarrow> is_ProgrammingError x"
proof -
  have *: "\<And>h' c' a'. case db h' c' a' of None \<Rightarrow> True
           | Some x \<Rightarrow> is_ProgrammingError x \<and> (\<exists>k. a' = Execute (CreationSql k))"
    using assms by (simp add: collisions_only_def)
  show "db h c (Execute (Sql t)) = None"
    using * [where h' = h and c' = c and a' = "Execute (Sql t)"] by (auto split: option.splits)
  show "db h c Commit = None"
    using * [where h' = h and c' = c and a' = Commit] by (auto split: option.splits)
  show "db h c a = Some x \<Longrightarrow> is_ProgrammingError x"
    using * [where h' = h and c' = c and a' = a] by (auto split: option.splits)
qed

lemma create_step_collisions_only:
  assumes "collisions_only db"
  shows "\<exists>outcome. create_step db self cur c s =
           (Inr (), s\<lparr>trace := trace s @ step_events cur self c outcome\<rparr>)"
proof -
  note ok = collisions_onlyD(1,2) [OF assms]
  have step: "\<exists>outcome. create_step db self cur c s =
           (Inr (), s\<lparr>trace := trace s @ step_events cur self c outcome\<rparr>)"
    if obj: "(if objClass self \<noteq> c then new c else self) = obj" for obj
  proof (cases "db (trace s @ [Db cur (Execute (Sql (''savepoint creating_'' @ name obj))) None])
                   cur (Execute (creationSql obj))")
    case None
    then have "create_step db self cur c s =
        (Inr (), s\<lparr>trace := trace s @ step_events cur self c None\<rparr>)"
      by (simp add: create_step_def step_events_def Let_def obj createSelf_eq step_defs ok)
    then show ?thesis ..
  next
    case (Some x)
    moreover from Some have "is_ProgrammingError x" by (rule collisions_onlyD(3) [OF assms])
    ultimately have "create_step db self cur c s =
        (Inr (), s\<lparr>trace := trace s @ step_events cur self c (Some x)\<rparr>)"
      by (simp add: create_step_def step_events_def Let_def obj createSelf_eq step_defs ok)
    then show ?thesis ..
  qed
  show ?thesis by (rule step) (rule refl)
qed

lemma create_steps_collisions_only:
  assumes "collisions_only db"
  shows "\<exists>outcomes. length outcomes = length order \<and>
           for_each order (create_step db self cur) s =
             (Inr (), s\<lparr>trace := trace s @ concat (map2 (step_events cur self) order outcomes)\<rparr>)"
proof (induction order arbitrary: s)
  case Nil
  show ?case by (simp add: return_def)
next
  case (Cons c order)
  from create_step_collisions_only [OF assms] obtain outcome where
    step: "create_step db self cur c s =
             (Inr (), s\<lparr>trace := trace s @ step_events cur self c outcome\<rparr>)" by blast
  from Cons.IH [of "s\<lparr>trace := trace s @ step_events cur self c outcome\<rparr>"]
  obtain outcomes where rest: "length outcomes = length order"
    "for_each order (create_step db self cur) (s\<lparr>trace := trace s @ step_events cur self c outcome\<rparr>) =
       (Inr (), s\<lparr>trace := trace s @ step_events cur self c outcome
            @ concat (map2 (step_events cur self) order outcomes)\<rparr>)"
    by auto
  have "length (outcome # outcomes) = length (c # order)" using rest(1) by simp
  moreover have "for_each (c # order) (create_step db self cur) s =
      (Inr (), s\<lparr>trace := trace s @ concat (map2 (step_events cur self) (c # order) (outcome # outcomes))\<rparr>)"
    by (simp add: and_then_def step rest(2))
  ultimately show ?case by blast
qed

lemma all_registered_closure_in_order:
  "\<forall>X \<in> set (map fst databaseDependenciesForSetup). closure_in_order X"
  by (simp add: databaseDependenciesForSetup_def closure_in_order_def getOrderedSetupList_def
        dependencyOrder_def dependencies_def before_def)

lemma step_events_new: "step_events cur (new X) c = class_step_events cur X c"
  by (rule ext) (simp add: step_events_def class_step_events_def new_def Let_def split: option.splits)

text \<open>
  Claim C10, as amended. For every class \<open>X\<close> registered in
  \<^verbatim>\<open>databaseDependenciesForSetup\<close>, on a database where nothing fails except that
  creation statements may raise a \<^verbatim>\<open>ProgrammingError\<close>, \<^verbatim>\<open>create\<close> on a new
  instance of \<open>X\<close> obtains the ordered setup list of \<open>X\<close>, which contains \<open>X\<close> and,
  for each of its members, the registered dependencies of that member, each before it; it
  runs the checkpointed creation step of every class \<open>c\<close> of that list, in the order of
  the list: the savepoint named after \<open>c\<close>, the creation statement of \<open>c\<close>, and the
  release of the savepoint or, when the creation raised, the rollback, the commit and the
  debug record; and it returns normally.
\<close>

theorem create_materializes_setup_closure_on_collisions:
  assumes "X \<in> set (map fst databaseDependenciesForSetup)" and "collisions_only db"
  shows "\<exists>order outcomes.
           getOrderedSetupList (Some [X]) = Inr order
           \<and> X \<in> set order
           \<and> (\<forall>c \<in> set order. \<forall>d \<in> set (dependencies databaseDependenciesForSetup c).
                 d \<in> set order \<and> before order d c)
           \<and> length outcomes = length order
           \<and> create db (new X) databaseCursor s =
               (Inr (), s\<lparr>trace := trace s @
                   concat (map2 (class_step_events databaseCursor X) order outcomes)\<rparr>)"
proof -
  from assms(1) all_registered_closure_in_order have "closure_in_order X" by blast
  then obtain order where order: "getOrderedSetupList (Some [X]) = Inr order"
    and closed: "X \<in> set order"
      "\<forall>c \<in> set order. \<forall>d \<in> set (dependencies databaseDependenciesForSetup c).
          d \<in> set order \<and> before order d c"
    unfolding closure_in_order_def by (auto split: sum.splits)
  from create_steps_collisions_only [OF assms(2), of order "new X" databaseCursor s]
  obtain outcomes where out: "length outcomes = length order"
    "for_each order (create_step db (new X) databaseCursor) s =
       (Inr (), s\<lparr>trace := trace s @
           concat (map2 (step_events databaseCursor (new X)) order outcomes)\<rparr>)"
    by blast
  have cls: "objClass (new X) = X" by (simp add: new_def)
  have "create db (new X) databaseCursor s =
       (Inr (), s\<lparr>trace := trace s @
           concat (map2 (class_step_events databaseCursor X) order outcomes)\<rparr>)"
    unfolding create_def cls order and_then_lift_Inr out(2) step_events_new ..
  with order closed out(1) show ?thesis by blast
qed

lemma collisions_only_db_tables_exist: "collisions_only db_tables_exist"
  by (auto simp: collisions_only_def db_tables_exist_def is_ProgrammingError_def
        split: action.splits statement.splits)

text \<open>
  The theorem for \<^verbatim>\<open>JobsTable\<close>, which depends on \<^verbatim>\<open>ProcessorsTable\<close>, on a
  database where both tables exist: the turn of \<^verbatim>\<open>processors\<close> runs before the turn
  of \<^verbatim>\<open>jobs\<close>.
\<close>

theorem create_materializes_setup_closure_on_collisions_witness:
  "(\<exists>order outcomes.
     getOrderedSetupList (Some [JobsTable]) = Inr order
     \<and> JobsTable \<in> set order
     \<and> (\<forall>c \<in> set order. \<forall>d \<in> set (dependencies databaseDependenciesForSetup c).
           d \<in> set order \<and> before order d c)
     \<and> length outcomes = length order
     \<and> create db_tables_exist (new JobsTable) 0 empty_state =
         (Inr (), empty_state\<lparr>trace := trace empty_state @
             concat (map2 (class_step_events 0 JobsTable) order outcomes)\<rparr>))
   \<and> getOrderedSetupList (Some [JobsTable]) = Inr [ProcessorsTable, JobsTable]
   \<and> create db_tables_exist (new JobsTable) 0 empty_state =
       (Inr (),
        \<lparr>trace =
           [Db 0 (Execute (Sql ''savepoint creating_processors'')) None,
            Db 0 (Execute (CreationSql ProcessorsTable)) (Some (PgError ProgrammingError ''42P07'')),
            Db 0 (Execute (Sql ''rollback to creating_processors'')) None,
            Db 0 Commit None,
            Debug ''in create for jobs, dbObject processors exists'',
            Db 0 (Execute (Sql ''savepoint creating_jobs'')) None,
            Db 0 (Execute (CreationSql JobsTable)) (Some (PgError ProgrammingError ''42P07'')),
            Db 0 (Execute (Sql ''rollback to creating_jobs'')) None,
            Db 0 Commit None,
            Debug ''in create for jobs, dbObject jobs exists''],
         partitionCreationHistory = {}\<rparr>)"
proof -
  have "JobsTable \<in> set (map fst databaseDependenciesForSetup)"
    by (simp add: databaseDependenciesForSetup_def)
  then have "\<exists>order outcomes.
     getOrderedSetupList (Some [JobsTable]) = Inr order
     \<and> JobsTable \<in> set order
     \<and> (\<forall>c \<in> set order. \<forall>d \<in> set (dependencies databaseDependenciesForSetup c).
           d \<in> set order \<and> before order d c)
     \<and> length outcomes = length order
     \<and> create db_tables_exist (new JobsTable) 0 empty_state =
         (Inr (), empty_state\<lparr>trace := trace empty_state @
             concat (map2 (class_step_events 0 JobsTable) order outcomes)\<rparr>)"
    using collisions_only_db_tables_exist
    by (rule create_materializes_setup_closure_on_collisions)
  moreover have "getOrderedSetupList (Some [JobsTable]) = Inr [ProcessorsTable, JobsTable]"
    by (simp add: run_defs)
  moreover have "create db_tables_exist (new JobsTable) 0 empty_state =
       (Inr (),
        \<lparr>trace =
           [Db 0 (Execute (Sql ''savepoint creating_processors'')) None,
            Db 0 (Execute (CreationSql ProcessorsTable)) (Some (PgError ProgrammingError ''42P07'')),
            Db 0 (Execute (Sql ''rollback to creating_processors'')) None,
            Db 0 Commit None,
            Debug ''in create for jobs, dbObject processors exists'',
            Db 0 (Execute (Sql ''savepoint creating_jobs'')) None,
            Db 0 (Execute (CreationSql JobsTable)) (Some (PgError ProgrammingError ''42P07'')),
            Db 0 (Execute (Sql ''rollback to creating_jobs'')) None,
            Db 0 Commit None,
            Debug ''in create for jobs, dbObject jobs exists''],
         partitionCreationHistory = {}\<rparr>)"
    by (simp add: run_defs db_tables_exist_def)
  ultimately show ?thesis by blast
qed

text \<open>
  Claim C10 as stated fails on a database that is shutting down: the creation statement of
  \<^verbatim>\<open>processors\<close>, the first class of the setup list of \<^verbatim>\<open>JobsTable\<close>, raises
  an \<^verbatim>\<open>OperationalError\<close>; \<^verbatim>\<open>create\<close> raises it, and the turn of
  \<^verbatim>\<open>jobs\<close> is never run.
\<close>

theorem create_stops_at_fatal_error_counterexample:
  "getOrderedSetupList (Some [JobsTable]) = Inr [ProcessorsTable, JobsTable]
   \<and> create db_shutdown (new JobsTable) 0 empty_state =
     (Inl (PgError OperationalError ''57P01''),
      \<lparr>trace =
         [Db 0 (Execute (Sql ''savepoint creating_processors'')) None,
          Db 0 (Execute (CreationSql ProcessorsTable)) (Some (PgError OperationalError ''57P01''))],
       partitionCreationHistory = {}\<rparr>)"
  by (simp add: run_defs db_shutdown_def)

section \<open>Properties of the partition registry\<close>

lemma marked_prims:
  "preserves (marked_iff_created s0 n (Db cur (Execute (PartitionCreationSql k d)) None))
      (\<lambda>_. marked_iff_created s0 n (Db cur (Execute (PartitionCreationSql k d)) None)) (debug msg)"
  "preserves (marked_iff_created s0 n (Db cur (Execute (PartitionCreationSql k d)) None))
      (\<lambda>_. marked_iff_created s0 n (Db cur (Execute (PartitionCreationSql k d)) None))
      (execute db cur' (Sql text))"
  "preserves (marked_iff_created s0 n (Db cur (Execute (PartitionCreationSql k d)) None))
      (\<lambda>_. marked_iff_created s0 n (Db cur (Execute (PartitionCreationSql k d)) None))
      (perform db cur' Commit)"
  by (rule preserves_debug preserves_execute preserves_perform;
      auto simp: marked_iff_created_def)+

lemma marked_try:
  "preserves (marked_iff_created s0 n ev) (\<lambda>_. marked_iff_created s0 n ev) m
   \<Longrightarrow> (\<And>x. preserves (marked_iff_created s0 n ev) (\<lambda>_. marked_iff_created s0 n ev) (h x))
   \<Longrightarrow> preserves (marked_iff_created s0 n ev) (\<lambda>_. marked_iff_created s0 n ev)
         (try_except m catches h)"
  by (rule preserves_try_except) auto

lemma marked_create_then_mark:
  assumes "\<And>v. preserves (marked_iff_created s0 n (Db cur (Execute st) None))
             (\<lambda>_. marked_iff_created s0 n (Db cur (Execute st) None)) (f v)"
  shows "preserves (marked_iff_created s0 n (Db cur (Execute st) None))
           (\<lambda>_. marked_iff_created s0 n (Db cur (Execute st) None))
           (and_then (execute db cur st) (\<lambda>_. and_then (markPartitionCreated n) f))"
  unfolding preserves_def
proof (rule hoare_and_then [where R = "\<lambda>_. created_unmarked s0 (Db cur (Execute st) None)"])
  show "hoare (marked_iff_created s0 n (Db cur (Execute st) None)) (execute db cur st)
          (\<lambda>_. created_unmarked s0 (Db cur (Execute st) None))
          (\<lambda>_. marked_iff_created s0 n (Db cur (Execute st) None))"
    by (rule hoare_execute) (auto simp: marked_iff_created_def created_unmarked_def)
next
  fix v
  show "hoare (created_unmarked s0 (Db cur (Execute st) None)) (and_then (markPartitionCreated n) f)
          (\<lambda>_. marked_iff_created s0 n (Db cur (Execute st) None))
          (\<lambda>_. marked_iff_created s0 n (Db cur (Execute st) None))"
  proof (rule hoare_and_then [where R = "\<lambda>_. marked_iff_created s0 n (Db cur (Execute st) None)"])
    show "hoare (created_unmarked s0 (Db cur (Execute st) None)) (markPartitionCreated n)
            (\<lambda>_. marked_iff_created s0 n (Db cur (Execute st) None))
            (\<lambda>_. marked_iff_created s0 n (Db cur (Execute st) None))"
      by (auto simp: hoare_def markPartitionCreated_def marked_iff_created_def created_unmarked_def)
  qed (use assms in \<open>simp add: preserves_def\<close>)
qed

lemmas marked_rules = marked_create_then_mark preserves_structure marked_try marked_prims

text \<open>
  Claim C4, as amended. When \<^verbatim>\<open>_createOwnPartition\<close> runs for one window whose
  partition name is not in the registry, the name is in the registry afterwards exactly
  when the partition's creation statement was executed and succeeded. A partition whose
  creation statement raises, as it does when the partition exists already, is left
  unmarked.
\<close>

theorem partition_marked_iff_created:
  assumes "subscript (partitionCreationParameters (objClass self) x) ''partitionName'' = Inr partitionName"
    and "partitionName \<notin> partitionCreationHistory s"
    and "createOwnPartition db self databaseCursor [x] s = (r, s')"
  shows "partitionName \<in> partitionCreationHistory s' \<longleftrightarrow>
         Db databaseCursor (Execute (PartitionCreationSql (objClass self)
              (partitionCreationParameters (objClass self) x))) None \<in> set (emitted s s')"
proof -
  let ?ev = "Db databaseCursor (Execute (PartitionCreationSql (objClass self)
              (partitionCreationParameters (objClass self) x))) None"
  have "preserves (marked_iff_created s partitionName ?ev) (\<lambda>_. marked_iff_created s partitionName ?ev)
          (createOwnPartition db self databaseCursor [x])"
    unfolding createOwnPartition_def createOwnPartition_step_def createSelf_eq Let_def for_each.simps
    by (simp add: assms(1) cong: if_cong) (intro marked_rules)
  moreover have "marked_iff_created s partitionName ?ev s"
    using assms(2) by (simp add: marked_iff_created_def)
  ultimately have "marked_iff_created s partitionName ?ev s'"
    using assms(3) by (cases r) (auto dest: preservesD)
  then show ?thesis by (auto simp: marked_iff_created_def emitted_def)
qed

lemma createOwnPartition_ok:
  "createOwnPartition db_ok (new ReportsTable) 0 [(739040, 739047)] empty_state =
     (Inr (),
      \<lparr>trace =
         [Debug ''in createOwnPartition for reports'',
          Debug ''savepoint createPartitions_reports_20240603'',
          Db 0 (Execute (Sql ''savepoint createPartitions_reports_20240603'')) None,
          Debug ''creating reports_20240603'',
          Db 0 (Execute (PartitionCreationSql ReportsTable
                  (partitionCreationParameters ReportsTable (739040, 739047)))) None,
          Debug ''successful - releasing savepoint'',
          Db 0 (Execute (Sql ''release savepoint createPartitions_reports_20240603'')) None,
          Db 0 Commit None],
       partitionCreationHistory = {''reports_20240603''}\<rparr>)"
  by (simp add: run_defs partition_defs db_ok_def Let_def)

text \<open>
  The theorem on a database where the creation succeeds: the partition is created and marked.
\<close>

theorem partition_marked_iff_created_witness:
  "''reports_20240603'' \<in> partitionCreationHistory
      (snd (createOwnPartition db_ok (new ReportsTable) 0 [(739040, 739047)] empty_state))
   \<and> Db 0 (Execute (PartitionCreationSql (objClass (new ReportsTable))
           (partitionCreationParameters (objClass (new ReportsTable)) (739040, 739047)))) None
     \<in> set (emitted empty_state
          (snd (createOwnPartition db_ok (new ReportsTable) 0 [(739040, 739047)] empty_state)))"
proof -
  let ?p = "createOwnPartition db_ok (new ReportsTable) 0 [(739040, 739047)] empty_state"
  have h1: "subscript (partitionCreationParameters (objClass (new ReportsTable)) (739040, 739047))
              ''partitionName'' = Inr ''reports_20240603''"
    by (simp add: new_def subscript_def reports_parameters)
  have h2: "''reports_20240603'' \<notin> partitionCreationHistory empty_state"
    by (simp add: empty_state_def)
  have h3: "?p = (fst ?p, snd ?p)" by simp
  have marked: "''reports_20240603'' \<in> partitionCreationHistory (snd ?p)"
    by (simp add: createOwnPartition_ok)
  with partition_marked_iff_created [OF h1 h2 h3] show ?thesis by simp
qed

text \<open>
  Claim C4 as stated fails when the partition exists already: the creation statement
  raises "relation already exists", the savepoint is rolled back and released, the
  connection is committed, and the name is not added to the registry.
\<close>

theorem collision_leaves_partition_unmarked_counterexample:
  "already_exists (PgError ProgrammingError ''42P07'')
   \<and> createOwnPartition db_collision (new ReportsTable) 0 [(739040, 739047)] empty_state =
     (Inr (),
      \<lparr>trace =
         [Debug ''in createOwnPartition for reports'',
          Debug ''savepoint createPartitions_reports_20240603'',
          Db 0 (Execute (Sql ''savepoint createPartitions_reports_20240603'')) None,
          Debug ''creating reports_20240603'',
          Db 0 (Execute (PartitionCreationSql ReportsTable
                  (partitionCreationParameters ReportsTable (739040, 739047))))
            (Some (PgError ProgrammingError ''42P07'')),
          Debug ''Rolling back and releasing savepoint: Creating reports_20240603 failed in createPartitions'',
          Db 0 (Execute (Sql ''rollback to createPartitions_reports_20240603; release savepoint createPartitions_reports_20240603;'')) None,
          Db 0 Commit None],
       partitionCreationHistory = {}\<rparr>)
   \<and> ''reports_20240603'' \<notin> {}"
  by (simp add: run_defs partition_defs db_collision_def Let_def already_exists_def)

subsection \<open>The lock\<close>

lemma hold_step_other: "e \<noteq> LockAcquire \<Longrightarrow> e \<noteq> LockRelease \<Longrightarrow> hold_step e n = n"
  by (cases e) simp_all

lemma fold_hold_step:
  "LockAcquire \<notin> set es \<Longrightarrow> LockRelease \<notin> set es \<Longrightarrow> fold hold_step es n = n"
  by (induction es arbitrary: n) (auto simp: hold_step_other)

lemma hold_count_append:
  "LockAcquire \<notin> set es \<Longrightarrow> LockRelease \<notin> set es \<Longrightarrow> hold_count (h @ es) = hold_count h"
  by (simp add: hold_count_def fold_hold_step)

lemma lock_prims:
  "preserves (lock_untouched s0) (\<lambda>_. lock_untouched s0) (raise x :: 'a prog)"
  "preserves (lock_untouched s0) (\<lambda>_. lock_untouched s0) (lift v)"
  "preserves (lock_untouched s0) (\<lambda>_. lock_untouched s0) (debug msg)"
  "preserves (lock_untouched s0) (\<lambda>_. lock_untouched s0) (execute db cur st)"
  "preserves (lock_untouched s0) (\<lambda>_. lock_untouched s0) (perform db cur a)"
  "preserves (lock_untouched s0) (\<lambda>_. lock_untouched s0) (partitionWasCreated n)"
  "preserves (lock_untouched s0) (\<lambda>_. lock_untouched s0) (markPartitionCreated n)"
  by (rule preserves_raise preserves_lift preserves_debug preserves_execute preserves_perform
        preserves_partitionWasCreated preserves_markPartitionCreated;
      auto simp: lock_untouched_def)+

lemma lock_try:
  "preserves (lock_untouched s0) (\<lambda>_. lock_untouched s0) m
   \<Longrightarrow> (\<And>x. preserves (lock_untouched s0) (\<lambda>_. lock_untouched s0) (h x))
   \<Longrightarrow> preserves (lock_untouched s0) (\<lambda>_. lock_untouched s0) (try_except m catches h)"
  by (rule preserves_try_except) auto

lemma lock_createOwnPartition:
  "preserves (lock_untouched s0) (\<lambda>_. lock_untouched s0) (createOwnPartition db self cur uniqueItems)"
  unfolding createOwnPartition_def createOwnPartition_step_def createSelf_eq
  by (simp add: Let_def cong: if_cong)
     (intro preserves_structure lock_try lock_prims)

lemma lock_untouchedD:
  assumes "lock_untouched s s'"
  shows "LockAcquire \<notin> set (emitted s s')" and "LockRelease \<notin> set (emitted s s')"
    and "hold_count (trace s @ take k (emitted s s')) = hold_count (trace s)"
proof -
  from assms obtain es where es: "trace s' = trace s @ es" "LockAcquire \<notin> set es"
    "LockRelease \<notin> set es" by (auto simp: lock_untouched_def)
  then have em: "emitted s s' = es" by (simp add: emitted_def)
  show "LockAcquire \<notin> set (emitted s s')" "LockRelease \<notin> set (emitted s s')"
    using es em by simp_all
  have "LockAcquire \<notin> set (take k es)" "LockRelease \<notin> set (take k es)"
    using es(2,3) by (auto dest: in_set_takeD)
  then show "hold_count (trace s @ take k (emitted s s')) = hold_count (trace s)"
    unfolding em by (rule hold_count_append)
qed

text \<open>
  Claim C8 asks that every check and every mark of the registry run while
  \<^verbatim>\<open>partitionCreationLock\<close> is held, and that the lock be held for the check or the
  mark only, never across a statement sent to the database. The module does not do this:
  it declares the lock and never acquires it. \<^verbatim>\<open>partitionWasCreated\<close> and
  \<^verbatim>\<open>markPartitionCreated\<close> add no event to the trace, so they take no lock of their
  own; and \<^verbatim>\<open>_createOwnPartition\<close>, the one function that calls them, neither
  acquires nor releases the lock, so that at every point of a call (after any number
  \<open>k\<close> of its events) the lock is held as many times as when the call began: at the
  check, at each statement sent to the database, and at the mark. Either the check and the
  mark run without the lock, or a caller holds it across the statements in between.
\<close>

theorem registry_used_without_lock:
  "(partitionWasCreated n s = (known, s1) \<longrightarrow> trace s1 = trace s)
   \<and> (markPartitionCreated n s = (u, s2) \<longrightarrow> trace s2 = trace s)
   \<and> (createOwnPartition db self cur uniqueItems s = (r, s') \<longrightarrow>
        LockAcquire \<notin> set (emitted s s') \<and> LockRelease \<notin> set (emitted s s')
        \<and> (\<forall>k. hold_count (trace s @ take k (emitted s s')) = hold_count (trace s)))"
proof (intro conjI impI allI)
  show "trace s1 = trace s" if "partitionWasCreated n s = (known, s1)"
    using that by (auto simp: partitionWasCreated_def)
  show "trace s2 = trace s" if "markPartitionCreated n s = (u, s2)"
    using that by (auto simp: markPartitionCreated_def)
  assume run: "createOwnPartition db self cur uniqueItems s = (r, s')"
  have "lock_untouched s s" by (simp add: lock_untouched_def)
  from preservesD [OF lock_createOwnPartition this run]
  have *: "lock_untouched s s'" by (cases r) simp_all
  show "LockAcquire \<notin> set (emitted s s')" by (rule lock_untouchedD(1) [OF *])
  show "LockRelease \<notin> set (emitted s s')" by (rule lock_untouchedD(2) [OF *])
  show "hold_count (trace s @ take k (emitted s s')) = hold_count (trace s)" for k
    by (rule lock_untouchedD(3) [OF *])
qed

text \<open>
  The theorem for the partition of \<^verbatim>\<open>reports\<close> of the week of 2024-06-03, from an
  empty trace and an empty registry, on a database where every statement succeeds: the
  registry is checked, three statements are executed and the connection is committed, the
  partition is marked, and the lock is held at no time.
\<close>

theorem registry_used_without_lock_witness:
  "createOwnPartition db_ok (new ReportsTable) 0 [(739040, 739047)] empty_state =
     (Inr (),
      \<lparr>trace =
         [Debug ''in createOwnPartition for reports'',
          Debug ''savepoint createPartitions_reports_20240603'',
          Db 0 (Execute (Sql ''savepoint createPartitions_reports_20240603'')) None,
          Debug ''creating reports_20240603'',
          Db 0 (Execute (PartitionCreationSql ReportsTable
                  (partitionCreationParameters ReportsTable (739040, 739047)))) None,
          Debug ''successful - releasing savepoint'',
          Db 0 (Execute (Sql ''release savepoint createPartitions_reports_20240603'')) None,
          Db 0 Commit None],
       partitionCreationHistory = {''reports_20240603''}\<rparr>)
   \<and> hold_count (trace empty_state) = 0
   \<and> LockAcquire \<notin> set (emitted empty_state
         (snd (createOwnPartition db_ok (new ReportsTable) 0 [(739040, 739047)] empty_state)))
   \<and> hold_count (trace (snd (createOwnPartition db_ok (new ReportsTable) 0 [(739040, 739047)]
         empty_state))) = 0"
proof -
  let ?p = "createOwnPartition db_ok (new ReportsTable) 0 [(739040, 739047)] empty_state"
  have run: "?p = (fst ?p, snd ?p)" by simp
  note free = registry_used_without_lock [THEN conjunct2, THEN conjunct2, rule_format, OF run]
  have zero: "hold_count (trace empty_state) = 0" by (simp add: hold_count_def trace_empty_state)
  have "emitted empty_state (snd ?p) = trace (snd ?p)"
    by (simp add: emitted_def trace_empty_state)
  with free [THEN conjunct2, THEN conjunct2, rule_format, of "length (trace (snd ?p))"]
  have "hold_count (trace (snd ?p)) = 0" by (simp add: trace_empty_state hold_count_def)
  with free [THEN conjunct1] zero createOwnPartition_ok show ?thesis by blast
qed

section \<open>Properties of the insert router\<close>

text \<open>
  Claim C5. A call of \<^verbatim>\<open>PartitionedTable.insert\<close> whose keyword arguments have no
  \<^verbatim>\<open>date_processed\<close> entry raises \<^verbatim>\<open>PartitionControlParameterRequired\<close> and
  leaves the state as it was: nothing is added to the trace, so no statement was executed
  on any cursor, and the registry is untouched.
\<close>

theorem insert_requires_partition_key:
  "map_of kwargs ''date_processed'' = None \<Longrightarrow>
   insert_row db self databaseCursor row alternateCursorFunction kwargs s
     = (Inl PartitionControlParameterRequired, s)"
  by (simp add: insert_row_def raise_def)

theorem insert_requires_partition_key_witness:
  "insert_row (\<lambda>h c a. None) (new ReportsTable) 0 [''uuid-1''] (Inr 1) [(''uuid'', PyStr ''uuid-1'')]
      \<lparr>trace = [], partitionCreationHistory = {}\<rparr>
     = (Inl PartitionControlParameterRequired, \<lparr>trace = [], partitionCreationHistory = {}\<rparr>)"
  by (rule insert_requires_partition_key) simp














section \<open>Properties of teardown\<close>








end
